theory Spec2Isabelle
  imports Main
begin

section \<open>Data model\<close>

text \<open>
  The two tables of \<^verbatim>\<open>createTables\<close>. Rows are kept in table order. Instants and
  \<^verbatim>\<open>TIMESTAMP\<close> values are milliseconds, as integers. \<^verbatim>\<open>id\<close> is a reserved name in
  HOL, so the key columns are \<open>sm_id\<close> and \<open>m_id\<close>; the columns of \<^verbatim>\<open>media_library\<close>
  carry the prefix \<open>m_\<close>.
\<close>

record media_row =
  m_id :: int
  m_name :: string
  m_type :: string
  m_content :: string

record scheduled_message =
  sm_id :: int
  phone_number :: string
  message_text :: "string option"
  media_id :: "int option"
  scheduled_time :: int
  status :: string

text \<open>
  The provider (the Graph API behind \<^verbatim>\<open>axios.post\<close>) is outside the program. A request is
  either the multipart upload to \<^verbatim>\<open>/media\<close> or the JSON post to \<^verbatim>\<open>/messages\<close>. The
  JSON payload that \<^verbatim>\<open>sendWhatsAppMessage\<close> builds has two shapes:
  \<^verbatim>\<open>{to, type:'text', text:{body}}\<close> and \<^verbatim>\<open>{to, type:T, [T]:{id, caption}}\<close>.
\<close>

datatype payload =
  TextMessage string "string option"
| MediaMessage string string string string

datatype provider_call =
  UploadMedia string string string
| SubmitMessage payload

text \<open>
  What the program reads from a response: for an upload \<^verbatim>\<open>response.data.id\<close>, for a
  submission \<^verbatim>\<open>resp.data.messages?.[0]?.id\<close> (\<open>None\<close> when the field is absent).
  \<open>HttpError\<close> is a rejected promise (network error or a non-2xx status).
  The provider may answer differently at each call: its answer is a function of the
  calls made so far and of the current request.
\<close>

datatype http_response = HttpError | HttpOk "string option"

type_synonym provider = "provider_call list \<Rightarrow> provider_call \<Rightarrow> http_response"

text \<open>The console keeps the lines written with \<^verbatim>\<open>console.error\<close>, by their fixed
  prefix; the informational \<^verbatim>\<open>console.log\<close> lines are left out.\<close>

datatype log_line = ConsoleError string

record world =
  messages :: "scheduled_message list"
  media_library :: "media_row list"
  next_message_id :: int
  next_media_id :: int
  calls :: "provider_call list"
  timers :: "(scheduled_message \<times> int) list"
  console :: "log_line list"

definition console_error :: "string \<Rightarrow> world \<Rightarrow> world" where
  "console_error s w = w\<lparr>console := console w @ [ConsoleError s]\<rparr>"

definition axios_post :: "provider \<Rightarrow> provider_call \<Rightarrow> world \<Rightarrow> http_response \<times> world" where
  "axios_post P c w = (P (calls w) c, w\<lparr>calls := calls w @ [c]\<rparr>)"

text \<open>JavaScript truthiness of a value that is a string, \<^verbatim>\<open>null\<close> or \<^verbatim>\<open>undefined\<close>.\<close>

fun truthy :: "string option \<Rightarrow> bool" where
  "truthy None = False"
| "truthy (Some s) = (s \<noteq> [])"

section \<open>Allowed MIME types and the payload type\<close>

definition WHATSAPP_ALLOWED_TYPES :: "(string \<times> string list) list" where
  "WHATSAPP_ALLOWED_TYPES =
    [(''image'', [''image/jpeg'', ''image/png'', ''image/webp'']),
     (''video'', [''video/mp4'', ''video/3gpp'']),
     (''audio'', [''audio/aac'', ''audio/mp4'', ''audio/mpeg'', ''audio/amr'', ''audio/ogg'',
                  ''audio/opus'']),
     (''document'', [''application/pdf'', ''application/vnd.ms-powerpoint'',
        ''application/msword'',
        ''application/vnd.openxmlformats-officedocument.wordprocessingml.document'',
        ''application/vnd.openxmlformats-officedocument.presentationml.presentation'',
        ''application/vnd.openxmlformats-officedocument.spreadsheetml.sheet'',
        ''text/plain'', ''application/vnd.ms-excel''])]"

text \<open>The \<^verbatim>\<open>for (const [type, list] of Object.entries(...))\<close> loop of
  \<^verbatim>\<open>getWhatsAppPayloadType\<close>, in insertion order, with its fall-through result.\<close>

fun payload_type_loop :: "(string \<times> string list) list \<Rightarrow> string \<Rightarrow> string" where
  "payload_type_loop [] mimeType = ''document''"
| "payload_type_loop ((type, list) # rest) mimeType =
     (if mimeType \<in> set list then type else payload_type_loop rest mimeType)"

definition getWhatsAppPayloadType :: "string \<Rightarrow> string" where
  "getWhatsAppPayloadType mimeType = payload_type_loop WHATSAPP_ALLOWED_TYPES mimeType"

text \<open>\<^verbatim>\<open>Object.values(WHATSAPP_ALLOWED_TYPES).flat()\<close> of the upload handler.\<close>

definition allowed :: "string list" where
  "allowed = concat (map snd WHATSAPP_ALLOWED_TYPES)"

section \<open>Sending (server.js)\<close>

text \<open>
  \<^verbatim>\<open>uploadMediaToWhatsApp\<close> returns \<^verbatim>\<open>response.data.id\<close>, or \<^verbatim>\<open>null\<close> after logging when
  the request throws.
\<close>

definition uploadMediaToWhatsApp ::
  "provider \<Rightarrow> string \<Rightarrow> string \<Rightarrow> string \<Rightarrow> world \<Rightarrow> string option \<times> world" where
  "uploadMediaToWhatsApp P name type buffer w =
     (case axios_post P (UploadMedia name type buffer) w of
        (HttpOk r, w') \<Rightarrow> (r, w')
      | (HttpError, w') \<Rightarrow> (None, console_error ''WhatsApp media upload error'' w'))"

text \<open>\<^verbatim>\<open>text || ""\<close>\<close>

fun caption_of :: "string option \<Rightarrow> string" where
  "caption_of None = []"
| "caption_of (Some t) = t"

text \<open>
  The tail of \<^verbatim>\<open>sendWhatsAppMessage\<close> in server.js: post the payload and return
  \<^verbatim>\<open>resp.data.messages?.[0]?.id || null\<close>; a throw is logged and gives \<^verbatim>\<open>null\<close>.
\<close>

definition post_message :: "provider \<Rightarrow> payload \<Rightarrow> world \<Rightarrow> string option \<times> world" where
  "post_message P pl w =
     (case axios_post P (SubmitMessage pl) w of
        (HttpOk r, w') \<Rightarrow> (if truthy r then r else None, w')
      | (HttpError, w') \<Rightarrow> (None, console_error ''Send WhatsApp message error'' w'))"

text \<open>
  \<^verbatim>\<open>sendWhatsAppMessage(to, text, mediaRow = null)\<close>. The argument \<open>mediaRow\<close> is
  \<open>None\<close> for \<^verbatim>\<open>null\<close> and for \<^verbatim>\<open>undefined\<close> (the default parameter turns \<^verbatim>\<open>undefined\<close>
  into \<^verbatim>\<open>null\<close>). \<^verbatim>\<open>throw new Error('Media upload failed')\<close> lands in the function's own
  \<^verbatim>\<open>catch\<close>.
\<close>

definition sendWhatsAppMessage ::
  "provider \<Rightarrow> string \<Rightarrow> string option \<Rightarrow> media_row option \<Rightarrow> world \<Rightarrow> string option \<times> world" where
  "sendWhatsAppMessage P to text mediaRow w =
     (case mediaRow of
        Some m \<Rightarrow>
          (case uploadMediaToWhatsApp P (m_name m) (m_type m) (m_content m) w of
             (mediaId, w1) \<Rightarrow>
               (case mediaId of
                  None \<Rightarrow> (None, console_error ''Send WhatsApp message error'' w1)
                | Some i \<Rightarrow>
                    if i = [] then (None, console_error ''Send WhatsApp message error'' w1)
                    else post_message P
                           (MediaMessage to (getWhatsAppPayloadType (m_type m)) i (caption_of text)) w1))
      | None \<Rightarrow> post_message P (TextMessage to text) w)"

section \<open>The due sweep (server.js)\<close>

text \<open>
  The database is taken to be reachable: a query fails only where the statement itself
  is rejected. Under that reading the \<^verbatim>\<open>catch\<close> blocks of \<^verbatim>\<open>processDueMessages\<close> are
  never entered, since \<^verbatim>\<open>sendWhatsAppMessage\<close> catches its own errors.
\<close>

text \<open>\<^verbatim>\<open>SELECT * FROM media_library WHERE id=$1\<close>, then \<^verbatim>\<open>r.rows[0]\<close>.\<close>

definition select_media :: "int \<Rightarrow> world \<Rightarrow> media_row option" where
  "select_media k w = find (\<lambda>m. m_id m = k) (media_library w)"

text \<open>\<^verbatim>\<open>UPDATE scheduled_messages SET status=$1 WHERE id=$2\<close> with an integer key.\<close>

definition update_status :: "string \<Rightarrow> int \<Rightarrow> world \<Rightarrow> world" where
  "update_status s k w =
     w\<lparr>messages := map (\<lambda>r. if sm_id r = k then r\<lparr>status := s\<rparr> else r) (messages w)\<rparr>"

text \<open>\<^verbatim>\<open>msg.media_id ? (SELECT ...).rows[0] : null\<close>: a media id of 0 is falsy.\<close>

definition load_media_row :: "scheduled_message \<Rightarrow> world \<Rightarrow> media_row option" where
  "load_media_row msg w =
     (case media_id msg of
        None \<Rightarrow> None
      | Some k \<Rightarrow> if k = 0 then None else select_media k w)"

text \<open>The body of the \<^verbatim>\<open>for (const msg of pending.rows)\<close> loop. The rows come in table
  order (the query has no \<^verbatim>\<open>ORDER BY\<close>).\<close>

definition process_msg :: "provider \<Rightarrow> scheduled_message \<Rightarrow> world \<Rightarrow> world" where
  "process_msg P msg w =
     (case sendWhatsAppMessage P (phone_number msg) (message_text msg) (load_media_row msg w) w of
        (messageId, w1) \<Rightarrow>
          update_status (if truthy messageId then ''sent'' else ''failed'') (sm_id msg) w1)"

definition select_due :: "int \<Rightarrow> world \<Rightarrow> scheduled_message list" where
  "select_due nowUTC w =
     filter (\<lambda>r. status r = ''pending'' \<and> scheduled_time r \<le> nowUTC) (messages w)"

definition processDueMessages :: "provider \<Rightarrow> int \<Rightarrow> world \<Rightarrow> world" where
  "processDueMessages P nowUTC w = fold (process_msg P) (select_due nowUTC w) w"

section \<open>The timer-based server (src/unnamed/part\_000)\<close>

text \<open>
  The second server file has no due sweep and no webhook: it arms one in-process timer per
  entry. Its functions that differ from server.js carry the suffix \<open>_p0\<close>. Its
  \<^verbatim>\<open>sendWhatsAppMessage\<close> returns \<^verbatim>\<open>true\<close> when nothing threw and \<^verbatim>\<open>false\<close> otherwise;
  \<^verbatim>\<open>uploadMediaToWhatsApp\<close> and \<^verbatim>\<open>getWhatsAppPayloadType\<close> are the same text.
\<close>

definition post_message_p0 :: "provider \<Rightarrow> payload \<Rightarrow> world \<Rightarrow> bool \<times> world" where
  "post_message_p0 P pl w =
     (case axios_post P (SubmitMessage pl) w of
        (HttpOk r, w') \<Rightarrow> (True, w')
      | (HttpError, w') \<Rightarrow> (False, console_error ''Message failed'' w'))"

definition sendWhatsAppMessage_p0 ::
  "provider \<Rightarrow> string \<Rightarrow> string option \<Rightarrow> media_row option \<Rightarrow> world \<Rightarrow> bool \<times> world" where
  "sendWhatsAppMessage_p0 P to text mediaRow w =
     (case mediaRow of
        Some m \<Rightarrow>
          (case uploadMediaToWhatsApp P (m_name m) (m_type m) (m_content m) w of
             (mediaId, w1) \<Rightarrow>
               (case mediaId of
                  None \<Rightarrow> (False, console_error ''Message failed'' w1)
                | Some i \<Rightarrow>
                    if i = [] then (False, console_error ''Message failed'' w1)
                    else post_message_p0 P
                           (MediaMessage to (getWhatsAppPayloadType (m_type m)) i (caption_of text)) w1))
      | None \<Rightarrow> post_message_p0 P (TextMessage to text) w)"

text \<open>
  \<^verbatim>\<open>sendAndMark(msg)\<close>: \<open>msg\<close> is the row as it was when it was selected or inserted;
  the function reads nothing of the current row before it sends. Each dispatch is run to
  its end before the next one starts.
\<close>

definition sendAndMark :: "provider \<Rightarrow> scheduled_message \<Rightarrow> world \<Rightarrow> world" where
  "sendAndMark P msg w =
     (case sendWhatsAppMessage_p0 P (phone_number msg) (message_text msg) (load_media_row msg w) w of
        (success, w1) \<Rightarrow> update_status (if success then ''sent'' else ''failed'') (sm_id msg) w1)"

text \<open>
  The delay a timer of \<^verbatim>\<open>setTimeout(callback, delay)\<close> runs with, in milliseconds: Node
  sets a delay that is larger than 2147483647 or less than 1 to 1.
\<close>

definition setTimeout_delay :: "int \<Rightarrow> int" where
  "setTimeout_delay delay = (if delay > 2147483647 \<or> delay < 1 then 1 else delay)"

text \<open>
  \<^verbatim>\<open>scheduleMessage(msg)\<close>: \<open>now\<close> is the reading of \<^verbatim>\<open>new Date()\<close> on the scale of the
  stored timestamps. \<^verbatim>\<open>setTimeout(() => sendAndMark(msg), delay)\<close> is recorded as a pair
  of the captured row and the delay the timer runs with.
\<close>

definition scheduleMessage :: "provider \<Rightarrow> int \<Rightarrow> scheduled_message \<Rightarrow> world \<Rightarrow> world" where
  "scheduleMessage P now msg w =
     (let delay = scheduled_time msg - now in
      if delay \<le> 0 then sendAndMark P msg w
      else w\<lparr>timers := timers w @ [(msg, setTimeout_delay delay)]\<rparr>)"

text \<open>
  \<^verbatim>\<open>SELECT * FROM scheduled_messages WHERE status='pending' AND scheduled_time >= $1\<close>
\<close>

definition select_pending_from :: "int \<Rightarrow> world \<Rightarrow> scheduled_message list" where
  "select_pending_from now w =
     filter (\<lambda>r. status r = ''pending'' \<and> scheduled_time r \<ge> now) (messages w)"

text \<open>
  \<^verbatim>\<open>initPendingMessages\<close>: \<open>now\<close> is the clock reading passed to the query, \<open>now'\<close>
  the later reading that \<^verbatim>\<open>scheduleMessage\<close> takes inside the loop.
\<close>

definition initPendingMessages :: "provider \<Rightarrow> int \<Rightarrow> int \<Rightarrow> world \<Rightarrow> world" where
  "initPendingMessages P now now' w =
     fold (scheduleMessage P now') (select_pending_from now w) w"

section \<open>Creating entries\<close>

text \<open>
  A \<^verbatim>\<open>scheduled_time\<close> of the request body, read as an ISO 8601 text: \<open>IsoTime t off\<close>
  is a text whose date and time fields read \<open>t\<close> (milliseconds, taken as if no zone
  applied) and whose zone designator, when there is one, is \<open>off\<close> minutes east of UTC.
  \<open>InvalidTime\<close> is a non-empty text that is not a date.
\<close>

datatype time_input = InvalidTime | IsoTime int "int option"

record schedule_request =
  req_phone_number :: "string option"
  req_message_text :: "string option"
  req_media_id :: "string option"
  req_scheduled_time :: "time_input option"

datatype reply = ReplyError string | ReplyOk | ReplyRow scheduled_message

text \<open>
  \<^verbatim>\<open>DateTime.fromISO(scheduled_time, { zone: 'Asia/Kolkata' }).toUTC().toISO()\<close>, with the
  library's reading of the \<^verbatim>\<open>zone\<close> option: the zone is used when the text carries no
  offset of its own. Asia/Kolkata is UTC+05:30 with no daylight saving. An invalid
  \<^verbatim>\<open>DateTime\<close> gives \<^verbatim>\<open>null\<close>. The result is the UTC instant; PostgreSQL stores the
  date and time fields of its text form in the \<^verbatim>\<open>TIMESTAMP\<close> column.
\<close>

definition kolkata_offset :: int where
  "kolkata_offset = 330"

fun fromISO_toUTC :: "time_input \<Rightarrow> int option" where
  "fromISO_toUTC InvalidTime = None"
| "fromISO_toUTC (IsoTime t None) = Some (t - kolkata_offset * 60000)"
| "fromISO_toUTC (IsoTime t (Some off)) = Some (t - off * 60000)"

text \<open>
  The input conversion of a \<^verbatim>\<open>TIMESTAMP\<close> (without time zone) column for a text
  parameter: the date and time fields are kept and a zone designator is ignored.
\<close>

fun pg_timestamp :: "time_input \<Rightarrow> int option" where
  "pg_timestamp InvalidTime = None"
| "pg_timestamp (IsoTime t off) = Some t"

text \<open>
  The input conversion of an \<^verbatim>\<open>INT\<close> column for a text parameter: blanks around an
  optionally signed run of decimal digits, within 32 bits.
\<close>

definition digit_val :: "char \<Rightarrow> nat option" where
  "digit_val c = map_of [(CHR ''0'', 0), (CHR ''1'', 1), (CHR ''2'', 2), (CHR ''3'', 3),
     (CHR ''4'', 4), (CHR ''5'', 5), (CHR ''6'', 6), (CHR ''7'', 7), (CHR ''8'', 8),
     (CHR ''9'', 9)] c"

fun digits_val :: "string \<Rightarrow> nat \<Rightarrow> nat option" where
  "digits_val [] acc = Some acc"
| "digits_val (c # cs) acc =
     (case digit_val c of None \<Rightarrow> None | Some d \<Rightarrow> digits_val cs (10 * acc + d))"

definition unsigned_val :: "string \<Rightarrow> nat option" where
  "unsigned_val s = (if s = [] then None else digits_val s 0)"

definition is_blank :: "char \<Rightarrow> bool" where
  "is_blank c = (c \<in> set [CHR '' '', CHR 0x09, CHR 0x0A, CHR 0x0B, CHR 0x0C, CHR 0x0D])"

definition trim_blanks :: "string \<Rightarrow> string" where
  "trim_blanks s = rev (dropWhile is_blank (rev (dropWhile is_blank s)))"

definition in_int4 :: "int \<Rightarrow> bool" where
  "in_int4 k = (- 2147483648 \<le> k \<and> k \<le> 2147483647)"

definition pg_int4 :: "string \<Rightarrow> int option" where
  "pg_int4 s =
     (let v = (case trim_blanks s of
                 [] \<Rightarrow> None
               | c # cs \<Rightarrow>
                   if c = CHR ''-'' then map_option (\<lambda>n. - int n) (unsigned_val cs)
                   else if c = CHR ''+'' then map_option int (unsigned_val cs)
                   else map_option int (unsigned_val (c # cs)))
      in case v of None \<Rightarrow> None | Some k \<Rightarrow> if in_int4 k then Some k else None)"

text \<open>
  \<^verbatim>\<open>INSERT INTO scheduled_messages(...) VALUES($1,$2,$3,$4,'pending') RETURNING *\<close> with
  the constraints of \<^verbatim>\<open>createTables\<close>: \<^verbatim>\<open>scheduled_time\<close> is \<^verbatim>\<open>NOT NULL\<close> and
  \<^verbatim>\<open>media_id\<close> \<^verbatim>\<open>REFERENCES media_library(id)\<close>. A parameter that does not convert is
  rejected before the statement runs; a violated constraint is found after the
  \<^verbatim>\<open>SERIAL\<close> value has been drawn.
\<close>

definition insert_message ::
  "string \<Rightarrow> string option \<Rightarrow> string option \<Rightarrow> int option \<Rightarrow> world \<Rightarrow> (string + scheduled_message) \<times> world" where
  "insert_message phone text media_param time_param w =
     (case (case media_param of None \<Rightarrow> Some None | Some s \<Rightarrow> map_option Some (pg_int4 s)) of
        None \<Rightarrow> (Inl ''invalid input syntax for type integer'', w)
      | Some mid \<Rightarrow>
          (let w1 = w\<lparr>next_message_id := next_message_id w + 1\<rparr> in
           case time_param of
             None \<Rightarrow> (Inl ''null value in column scheduled_time'', w1)
           | Some ts \<Rightarrow>
               if (case mid of None \<Rightarrow> False | Some k \<Rightarrow> select_media k w = None)
               then (Inl ''violates foreign key constraint'', w1)
               else
                 (let row = \<lparr>sm_id = next_message_id w, phone_number = phone, message_text = text,
                             media_id = mid, scheduled_time = ts, status = ''pending''\<rparr>
                  in (Inr row, w1\<lparr>messages := messages w1 @ [row]\<rparr>))))"

text \<open>\<^verbatim>\<open>app.post('/api/schedule-message')\<close> of server.js.\<close>

definition schedule_message :: "schedule_request \<Rightarrow> world \<Rightarrow> reply \<times> world" where
  "schedule_message req w =
     (case (req_phone_number req, req_scheduled_time req) of
        (Some phone, Some t) \<Rightarrow>
          if phone = [] then (ReplyError ''Missing required fields'', w)
          else
            (case insert_message phone (req_message_text req)
                    (if truthy (req_media_id req) then req_media_id req else None)
                    (fromISO_toUTC t) w of
               (Inl e, w') \<Rightarrow> (ReplyError e, console_error ''Schedule message error'' w')
             | (Inr row, w') \<Rightarrow> (ReplyRow row, w'))
      | _ \<Rightarrow> (ReplyError ''Missing required fields'', w))"

text \<open>
  \<^verbatim>\<open>app.post('/api/schedule-message')\<close> of part\_000: the request's \<^verbatim>\<open>scheduled_time\<close> is
  the fourth parameter as it came, and the new row goes to \<^verbatim>\<open>scheduleMessage\<close>.
\<close>

definition schedule_message_p0 ::
  "provider \<Rightarrow> int \<Rightarrow> schedule_request \<Rightarrow> world \<Rightarrow> reply \<times> world" where
  "schedule_message_p0 P now req w =
     (case (req_phone_number req, req_scheduled_time req) of
        (Some phone, Some t) \<Rightarrow>
          if phone = [] then (ReplyError ''Missing required fields'', w)
          else
            (case pg_timestamp t of
               None \<Rightarrow>
                 (ReplyError ''invalid input syntax for type timestamp'',
                  console_error ''Schedule message error'' w)
             | Some ts \<Rightarrow>
                 (case insert_message phone (req_message_text req)
                         (if truthy (req_media_id req) then req_media_id req else None)
                         (Some ts) w of
                    (Inl e, w') \<Rightarrow> (ReplyError e, console_error ''Schedule message error'' w')
                  | (Inr newMsg, w') \<Rightarrow> (ReplyOk, scheduleMessage P now newMsg w')))
      | _ \<Rightarrow> (ReplyError ''Missing required fields'', w))"

text \<open>
  \<^verbatim>\<open>app.post('/api/upload-media')\<close>: \<open>up_file\<close> is the uploaded file's MIME type and
  bytes, when a file came with the request.
\<close>

record upload_request =
  up_file :: "(string \<times> string) option"
  up_name :: "string option"

definition upload_media :: "upload_request \<Rightarrow> world \<Rightarrow> reply \<times> world" where
  "upload_media req w =
     (case (up_file req, up_name req) of
        (Some (type, buffer), Some name) \<Rightarrow>
          if name = [] then (ReplyError ''Missing file or name'', w)
          else if type \<notin> set allowed then (ReplyError (''Unsupported file type: '' @ type), w)
          else
            (ReplyOk,
             w\<lparr>media_library := media_library w @
                  [\<lparr>m_id = next_media_id w, m_name = name, m_type = type, m_content = buffer\<rparr>],
               next_media_id := next_media_id w + 1\<rparr>)
      | _ \<Rightarrow> (ReplyError ''Missing file or name'', w))"

section \<open>The receipt webhook (server.js)\<close>

text \<open>
  The parsed request body is any JSON value; \<open>JUndefined\<close> is what reading an absent
  property gives. Numbers are the integers, and an object is the list of its properties,
  each key once.
\<close>

datatype jsval =
  JUndefined
| JNull
| JBool bool
| JNum int
| JStr string
| JArr "jsval list"
| JObj "(string \<times> jsval) list"

datatype js_error = TypeError | DatabaseError

fun js_truthy :: "jsval \<Rightarrow> bool" where
  "js_truthy JUndefined = False"
| "js_truthy JNull = False"
| "js_truthy (JBool b) = b"
| "js_truthy (JNum n) = (n \<noteq> 0)"
| "js_truthy (JStr s) = (s \<noteq> [])"
| "js_truthy (JArr xs) = True"
| "js_truthy (JObj kvs) = True"

text \<open>
  \<^verbatim>\<open>v.k\<close> for the property names the handler reads (\<^verbatim>\<open>entry\<close>, \<^verbatim>\<open>changes\<close>,
  \<^verbatim>\<open>value\<close>, \<^verbatim>\<open>statuses\<close>, \<^verbatim>\<open>id\<close>, \<^verbatim>\<open>status\<close>): a TypeError on \<^verbatim>\<open>null\<close> and
  \<^verbatim>\<open>undefined\<close>, the member of an object, and \<^verbatim>\<open>undefined\<close> on every other value, none
  of whose prototypes has a property of these names.
\<close>

fun get_prop :: "jsval \<Rightarrow> string \<Rightarrow> js_error + jsval" where
  "get_prop JUndefined k = Inl TypeError"
| "get_prop JNull k = Inl TypeError"
| "get_prop (JObj kvs) k = Inr (case map_of kvs k of None \<Rightarrow> JUndefined | Some v \<Rightarrow> v)"
| "get_prop v k = Inr JUndefined"

text \<open>\<^verbatim>\<open>v || []\<close>\<close>

definition or_empty :: "jsval \<Rightarrow> jsval" where
  "or_empty v = (if js_truthy v then v else JArr [])"

text \<open>
  What \<^verbatim>\<open>for (const x of v)\<close> iterates: the elements of an array, the characters of a
  string; any other value is not iterable.
\<close>

fun js_iter :: "jsval \<Rightarrow> js_error + jsval list" where
  "js_iter (JArr xs) = Inr xs"
| "js_iter (JStr s) = Inr (map (\<lambda>c. JStr [c]) s)"
| "js_iter v = Inl TypeError"

text \<open>
  A loop whose body may throw: the loop stops at the first throw, and what the earlier
  rounds wrote to the state stays written.
\<close>

fun for_of :: "('a \<Rightarrow> 's \<Rightarrow> 's \<times> js_error option) \<Rightarrow> 'a list \<Rightarrow> 's \<Rightarrow> 's \<times> js_error option" where
  "for_of body [] s = (s, None)"
| "for_of body (x # xs) s =
     (case body x s of
        (s', None) \<Rightarrow> for_of body xs s'
      | (s', Some e) \<Rightarrow> (s', Some e))"

text \<open>
  The second parameter of the \<^verbatim>\<open>UPDATE\<close> is compared with the \<^verbatim>\<open>SERIAL\<close> column
  \<^verbatim>\<open>id\<close>, so the server converts it to an integer. The driver sends \<^verbatim>\<open>null\<close> and
  \<^verbatim>\<open>undefined\<close> as SQL NULL (\<open>Inr None\<close>: the comparison holds for no row), a string as
  it is, a number in decimal, and a boolean, an array or an object as a text that is no
  integer.
\<close>

fun pg_id_param :: "jsval \<Rightarrow> js_error + int option" where
  "pg_id_param JUndefined = Inr None"
| "pg_id_param JNull = Inr None"
| "pg_id_param (JStr s) = (case pg_int4 s of None \<Rightarrow> Inl DatabaseError | Some k \<Rightarrow> Inr (Some k))"
| "pg_id_param (JNum n) = (if in_int4 n then Inr (Some n) else Inl DatabaseError)"
| "pg_id_param v = Inl DatabaseError"

text \<open>\<^verbatim>\<open>messageStatus === 'delivered' || messageStatus === 'read' ? 'sent' : 'failed'\<close>\<close>

definition receipt_status :: "jsval \<Rightarrow> string" where
  "receipt_status messageStatus =
     (if messageStatus = JStr ''delivered'' \<or> messageStatus = JStr ''read'' then ''sent''
      else ''failed'')"

text \<open>The body of \<^verbatim>\<open>for (const status of statuses)\<close>.\<close>

definition status_round :: "jsval \<Rightarrow> world \<Rightarrow> world \<times> js_error option" where
  "status_round st w =
     (case get_prop st ''id'' of
        Inl e \<Rightarrow> (w, Some e)
      | Inr messageId \<Rightarrow>
          (case get_prop st ''status'' of
             Inl e \<Rightarrow> (w, Some e)
           | Inr messageStatus \<Rightarrow>
               (case pg_id_param messageId of
                  Inl e \<Rightarrow> (w, Some e)
                | Inr None \<Rightarrow> (w, None)
                | Inr (Some k) \<Rightarrow> (update_status (receipt_status messageStatus) k w, None))))"

text \<open>The body of \<^verbatim>\<open>for (const change of changes)\<close>.\<close>

definition change_round :: "jsval \<Rightarrow> world \<Rightarrow> world \<times> js_error option" where
  "change_round change w =
     (case get_prop change ''value'' of
        Inl e \<Rightarrow> (w, Some e)
      | Inr v \<Rightarrow>
          (case get_prop v ''statuses'' of
             Inl e \<Rightarrow> (w, Some e)
           | Inr sts \<Rightarrow>
               (case js_iter (or_empty sts) of
                  Inl e \<Rightarrow> (w, Some e)
                | Inr statuses \<Rightarrow> for_of status_round statuses w)))"

text \<open>The body of \<^verbatim>\<open>for (const entry of entries)\<close>.\<close>

definition entry_round :: "jsval \<Rightarrow> world \<Rightarrow> world \<times> js_error option" where
  "entry_round entry w =
     (case get_prop entry ''changes'' of
        Inl e \<Rightarrow> (w, Some e)
      | Inr cs \<Rightarrow>
          (case js_iter (or_empty cs) of
             Inl e \<Rightarrow> (w, Some e)
           | Inr changes \<Rightarrow> for_of change_round changes w))"

text \<open>The \<^verbatim>\<open>try\<close> block of the handler.\<close>

definition webhook_try :: "jsval \<Rightarrow> world \<Rightarrow> world \<times> js_error option" where
  "webhook_try body w =
     (case get_prop body ''entry'' of
        Inl e \<Rightarrow> (w, Some e)
      | Inr es \<Rightarrow>
          (case js_iter (or_empty es) of
             Inl e \<Rightarrow> (w, Some e)
           | Inr entries \<Rightarrow> for_of entry_round entries w))"

text \<open>
  \<^verbatim>\<open>app.post('/webhook')\<close>: the \<^verbatim>\<open>try\<close> block, the \<^verbatim>\<open>catch\<close> that logs, then
  \<^verbatim>\<open>res.sendStatus(200)\<close>. The result is the HTTP status and the world after it.
\<close>

definition webhook_post :: "jsval \<Rightarrow> world \<Rightarrow> nat \<times> world" where
  "webhook_post body w =
     (case webhook_try body w of
        (w', None) \<Rightarrow> (200, w')
      | (w', Some e) \<Rightarrow> (200, console_error ''Error processing webhook'' w'))"

text \<open>
  The body the provider posts for one receipt:
  \<^verbatim>\<open>{entry: [{changes: [{value: {statuses: [{id, status}]}}]}]}\<close>.
\<close>

definition receipt_body :: "jsval \<Rightarrow> jsval \<Rightarrow> jsval" where
  "receipt_body messageId messageStatus =
     JObj [(''entry'', JArr [JObj [(''changes'', JArr [JObj [(''value'',
       JObj [(''statuses'', JArr [JObj [(''id'', messageId), (''status'', messageStatus)]])])]])]])]"

section \<open>Worlds and providers used in the examples\<close>

definition empty_world :: world where
  "empty_world = \<lparr>messages = [], media_library = [], next_message_id = 1, next_media_id = 1,
     calls = [], timers = [], console = []\<rparr>"

text \<open>A provider that accepts everything, and one that rejects every upload.\<close>

fun accepting :: provider where
  "accepting hist (UploadMedia name type buffer) = HttpOk (Some ''media-77'')"
| "accepting hist (SubmitMessage pl) = HttpOk (Some ''wamid.123'')"

fun upload_down :: provider where
  "upload_down hist (UploadMedia name type buffer) = HttpError"
| "upload_down hist (SubmitMessage pl) = HttpOk (Some ''wamid.123'')"

definition text_entry :: "int \<Rightarrow> int \<Rightarrow> string \<Rightarrow> scheduled_message" where
  "text_entry k t st = \<lparr>sm_id = k, phone_number = ''+1555'', message_text = Some ''hi'',
     media_id = None, scheduled_time = t, status = st\<rparr>"

definition media_entry :: "int \<Rightarrow> int \<Rightarrow> int \<Rightarrow> scheduled_message" where
  "media_entry k mid t = \<lparr>sm_id = k, phone_number = ''+1555'', message_text = Some ''hi'',
     media_id = Some mid, scheduled_time = t, status = ''pending''\<rparr>"

definition asset :: "int \<Rightarrow> string \<Rightarrow> media_row" where
  "asset k ty = \<lparr>m_id = k, m_name = ''file'', m_type = ty, m_content = ''bytes''\<rparr>"

definition media_world :: world where
  "media_world = empty_world\<lparr>messages := [media_entry 1 5 0],
     media_library := [asset 5 ''image/jpeg'']\<rparr>"

section \<open>Predicates used in the statements\<close>

text \<open>
  The upload phase fails for asset \<open>m\<close> in world \<open>w\<close>: the request throws, or the
  response carries no id, or an empty one (\<^verbatim>\<open>if (!mediaId) throw ...\<close>).
\<close>

definition upload_fails :: "provider \<Rightarrow> world \<Rightarrow> media_row \<Rightarrow> bool" where
  "upload_fails P w m =
     (case P (calls w) (UploadMedia (m_name m) (m_type m) (m_content m)) of
        HttpError \<Rightarrow> True
      | HttpOk r \<Rightarrow> \<not> truthy r)"

text \<open>The four lists of \<open>WHATSAPP_ALLOWED_TYPES\<close>, named for the proofs.\<close>

definition image_types :: "string list" where
  "image_types = [''image/jpeg'', ''image/png'', ''image/webp'']"

definition video_types :: "string list" where
  "video_types = [''video/mp4'', ''video/3gpp'']"

definition audio_types :: "string list" where
  "audio_types = [''audio/aac'', ''audio/mp4'', ''audio/mpeg'', ''audio/amr'', ''audio/ogg'',
     ''audio/opus'']"

definition document_types :: "string list" where
  "document_types = [''application/pdf'', ''application/vnd.ms-powerpoint'',
     ''application/msword'',
     ''application/vnd.openxmlformats-officedocument.wordprocessingml.document'',
     ''application/vnd.openxmlformats-officedocument.presentationml.presentation'',
     ''application/vnd.openxmlformats-officedocument.spreadsheetml.sheet'',
     ''text/plain'', ''application/vnd.ms-excel'']"

text \<open>The upload phase succeeds for asset \<open>m\<close> with the non-empty media handle \<open>i\<close>.\<close>

definition upload_gives :: "provider \<Rightarrow> world \<Rightarrow> media_row \<Rightarrow> string \<Rightarrow> bool" where
  "upload_gives P w m i =
     (P (calls w) (UploadMedia (m_name m) (m_type m) (m_content m)) = HttpOk (Some i) \<and> i \<noteq> [])"

text \<open>
  The \<^verbatim>\<open>UPDATE\<close> that the handler runs for a receipt naming \<open>messageId\<close> reaches row
  \<open>r\<close>.
\<close>

definition receipt_reaches :: "jsval \<Rightarrow> scheduled_message \<Rightarrow> bool" where
  "receipt_reaches messageId r = (pg_id_param messageId = Inr (Some (sm_id r)))"

text \<open>A table whose one entry has been sent.\<close>

definition sent_world :: world where
  "sent_world = empty_world\<lparr>messages := [text_entry 1 0 ''sent'']\<rparr>"

text \<open>
  The entry names a media id for which \<^verbatim>\<open>media_library\<close> has no row.
\<close>

definition dangling :: "scheduled_message \<Rightarrow> world \<Rightarrow> bool" where
  "dangling msg w = (case media_id msg of None \<Rightarrow> False | Some k \<Rightarrow> select_media k w = None)"

text \<open>
  The submission of \<open>pl\<close> in world \<open>w\<close> returns a non-empty message id (what
  server.js counts as success), or returns at all (what part\_000 counts as success).
\<close>

definition submit_gives_id :: "provider \<Rightarrow> world \<Rightarrow> payload \<Rightarrow> bool" where
  "submit_gives_id P w pl =
     (case P (calls w) (SubmitMessage pl) of HttpError \<Rightarrow> False | HttpOk r \<Rightarrow> truthy r)"

definition submit_returns :: "provider \<Rightarrow> world \<Rightarrow> payload \<Rightarrow> bool" where
  "submit_returns P w pl =
     (case P (calls w) (SubmitMessage pl) of HttpError \<Rightarrow> False | HttpOk r \<Rightarrow> True)"

definition pending_world :: world where
  "pending_world = empty_world\<lparr>messages := [text_entry 1 0 ''pending'']\<rparr>"

text \<open>The text columns of a row.\<close>

definition row_texts :: "scheduled_message \<Rightarrow> string list" where
  "row_texts r = [phone_number r, status r] @ (case message_text r of None \<Rightarrow> [] | Some t \<Rightarrow> [t])"

text \<open>
  Row \<open>r'\<close> is row \<open>r\<close>, or \<open>r\<close> with a terminal status written to it.
\<close>

definition settled_or_same :: "scheduled_message \<Rightarrow> scheduled_message \<Rightarrow> bool" where
  "settled_or_same r r' = (r' = r \<or> r' = r\<lparr>status := ''sent''\<rparr> \<or> r' = r\<lparr>status := ''failed''\<rparr>)"

text \<open>A table with two pending text entries, both due at 0.\<close>

definition two_world :: world where
  "two_world = empty_world\<lparr>messages := [text_entry 1 0 ''pending'', text_entry 2 0 ''pending'']\<rparr>"

text \<open>
  The selection of the recovery sweep in the specification's words, for comparison with
  \<open>select_pending_from\<close>: every entry with \<^verbatim>\<open>status = pending\<close> and
  \<^verbatim>\<open>scheduledAt <= now + recoveryHorizon\<close>.
\<close>

definition spec_recovery_selection :: "int \<Rightarrow> int \<Rightarrow> world \<Rightarrow> scheduled_message list" where
  "spec_recovery_selection now recoveryHorizon w =
     filter (\<lambda>r. status r = ''pending'' \<and> scheduled_time r \<le> now + recoveryHorizon) (messages w)"

text \<open>A table with one pending entry due at 5 and one due at 30.\<close>

definition overdue_world :: world where
  "overdue_world = empty_world\<lparr>messages := [text_entry 1 5 ''pending'', text_entry 2 30 ''pending'']\<rparr>"

text \<open>
  A request for 10:00 with the zone designator +05:30, that is 04:30 UTC, in milliseconds
  of the day.
\<close>

definition zoned_request :: schedule_request where
  "zoned_request = \<lparr>req_phone_number = Some ''+1555'', req_message_text = Some ''hi'',
     req_media_id = None, req_scheduled_time = Some (IsoTime 36000000 (Some 330))\<rparr>"

section \<open>The states the program reaches\<close>







section \<open>Properties\<close>

subsection \<open>Status writes\<close>

lemma calls_update_status [simp]: "calls (update_status s k w) = calls w"
  by (simp add: update_status_def)

lemma messages_update_status:
  "messages (update_status s k w) =
     map (\<lambda>r. if sm_id r = k then r\<lparr>status := s\<rparr> else r) (messages w)"
  by (simp add: update_status_def)

subsection \<open>Two-phase send\<close>

lemma send_upload_fails:
  assumes "upload_fails P w m"
  shows "fst (sendWhatsAppMessage P to text (Some m) w) = None"
    and "calls (snd (sendWhatsAppMessage P to text (Some m) w)) =
           calls w @ [UploadMedia (m_name m) (m_type m) (m_content m)]"
    and "messages (snd (sendWhatsAppMessage P to text (Some m) w)) = messages w"
  using assms
  by (auto simp: upload_fails_def sendWhatsAppMessage_def uploadMediaToWhatsApp_def
      axios_post_def console_error_def split: http_response.splits option.splits)

lemma send_p0_upload_fails:
  assumes "upload_fails P w m"
  shows "fst (sendWhatsAppMessage_p0 P to text (Some m) w) = False"
    and "calls (snd (sendWhatsAppMessage_p0 P to text (Some m) w)) =
           calls w @ [UploadMedia (m_name m) (m_type m) (m_content m)]"
    and "messages (snd (sendWhatsAppMessage_p0 P to text (Some m) w)) = messages w"
  using assms
  by (auto simp: upload_fails_def sendWhatsAppMessage_p0_def uploadMediaToWhatsApp_def
      axios_post_def console_error_def split: http_response.splits option.splits)

text \<open>
  C7. When the entry's media row resolves and the upload phase fails, a dispatch makes
  exactly one provider call, the upload: no message is submitted. Every row with the
  entry's id ends with status \<open>failed\<close> and no other row changes. This holds for the
  sweep's dispatch (\<open>process_msg\<close>, server.js) and for the timer's (\<open>sendAndMark\<close>,
  part\_000).
\<close>

theorem upload_failure_never_submits:
  assumes "load_media_row msg w = Some m" and "upload_fails P w m"
  shows "calls (process_msg P msg w) = calls w @ [UploadMedia (m_name m) (m_type m) (m_content m)]
       \<and> messages (process_msg P msg w) =
           map (\<lambda>r. if sm_id r = sm_id msg then r\<lparr>status := ''failed''\<rparr> else r) (messages w)
       \<and> calls (sendAndMark P msg w) = calls w @ [UploadMedia (m_name m) (m_type m) (m_content m)]
       \<and> messages (sendAndMark P msg w) =
           map (\<lambda>r. if sm_id r = sm_id msg then r\<lparr>status := ''failed''\<rparr> else r) (messages w)"
proof -
  obtain r w1 where s: "sendWhatsAppMessage P (phone_number msg) (message_text msg) (Some m) w = (r, w1)"
    by (cases "sendWhatsAppMessage P (phone_number msg) (message_text msg) (Some m) w")
  from send_upload_fails [OF assms(2), of "phone_number msg" "message_text msg"] s
  have r: "r = None" and c: "calls w1 = calls w @ [UploadMedia (m_name m) (m_type m) (m_content m)]"
    and ms: "messages w1 = messages w" by simp_all
  obtain b w2 where s0: "sendWhatsAppMessage_p0 P (phone_number msg) (message_text msg) (Some m) w = (b, w2)"
    by (cases "sendWhatsAppMessage_p0 P (phone_number msg) (message_text msg) (Some m) w")
  from send_p0_upload_fails [OF assms(2), of "phone_number msg" "message_text msg"] s0
  have b: "\<not> b" and c0: "calls w2 = calls w @ [UploadMedia (m_name m) (m_type m) (m_content m)]"
    and ms0: "messages w2 = messages w" by simp_all
  show ?thesis
    using assms(1) s r c ms s0 b c0 ms0
    by (simp add: process_msg_def sendAndMark_def messages_update_status)
qed

theorem upload_failure_never_submits_witness:
  "load_media_row (media_entry 1 5 0) media_world = Some (asset 5 ''image/jpeg'')
   \<and> upload_fails upload_down media_world (asset 5 ''image/jpeg'')
   \<and> calls (process_msg upload_down (media_entry 1 5 0) media_world) =
       [UploadMedia ''file'' ''image/jpeg'' ''bytes'']
   \<and> map status (messages (process_msg upload_down (media_entry 1 5 0) media_world)) = [''failed'']
   \<and> calls (sendAndMark upload_down (media_entry 1 5 0) media_world) =
       [UploadMedia ''file'' ''image/jpeg'' ''bytes'']
   \<and> map status (messages (sendAndMark upload_down (media_entry 1 5 0) media_world)) = [''failed'']"
proof -
  have h1: "load_media_row (media_entry 1 5 0) media_world = Some (asset 5 ''image/jpeg'')"
    by (simp add: load_media_row_def media_entry_def select_media_def media_world_def
        empty_world_def asset_def)
  have h2: "upload_fails upload_down media_world (asset 5 ''image/jpeg'')"
    by (simp add: upload_fails_def asset_def)
  show ?thesis
    using upload_failure_never_submits [OF h1 h2] h1 h2
    by (simp add: media_world_def empty_world_def asset_def media_entry_def)
qed

subsection \<open>Classification of MIME types\<close>

lemma table_eq:
  "WHATSAPP_ALLOWED_TYPES =
     [(''image'', image_types), (''video'', video_types), (''audio'', audio_types),
      (''document'', document_types)]"
  by (simp add: WHATSAPP_ALLOWED_TYPES_def image_types_def video_types_def audio_types_def
      document_types_def)

lemma image_hit: "mimeType \<in> set image_types \<Longrightarrow> getWhatsAppPayloadType mimeType = ''image''"
  by (simp add: getWhatsAppPayloadType_def table_eq)

lemma video_not_image: "mimeType \<in> set video_types \<Longrightarrow> mimeType \<notin> set image_types"
  unfolding video_types_def image_types_def
  apply (simp only: list.set insert_iff empty_iff)
  apply (elim disjE FalseE)
   apply simp_all
  done

lemma audio_not_earlier:
  "mimeType \<in> set audio_types \<Longrightarrow> mimeType \<notin> set image_types \<and> mimeType \<notin> set video_types"
  unfolding video_types_def image_types_def audio_types_def
  apply (simp only: list.set insert_iff empty_iff)
  apply (elim disjE FalseE)
       apply simp_all
  done

lemma document_not_earlier:
  "mimeType \<in> set document_types \<Longrightarrow>
     mimeType \<notin> set image_types \<and> mimeType \<notin> set video_types \<and> mimeType \<notin> set audio_types"
  unfolding video_types_def image_types_def audio_types_def document_types_def
  apply (simp only: list.set insert_iff empty_iff)
  apply (elim disjE FalseE)
         apply simp_all
  done

lemma payload_type_in_table:
  assumes "(type, list) \<in> set WHATSAPP_ALLOWED_TYPES" and "mimeType \<in> set list"
  shows "getWhatsAppPayloadType mimeType = type"
proof -
  from assms(1) consider
      "type = ''image''" "list = image_types"
    | "type = ''video''" "list = video_types"
    | "type = ''audio''" "list = audio_types"
    | "type = ''document''" "list = document_types"
    unfolding table_eq by (simp only: list.set insert_iff empty_iff prod.inject) blast
  then show ?thesis
  proof cases
    case 1
    with assms(2) show ?thesis by (simp add: image_hit)
  next
    case 2
    with assms(2) video_not_image [of mimeType] show ?thesis
      by (simp add: getWhatsAppPayloadType_def table_eq)
  next
    case 3
    with assms(2) audio_not_earlier [of mimeType] show ?thesis
      by (simp add: getWhatsAppPayloadType_def table_eq)
  next
    case 4
    with assms(2) document_not_earlier [of mimeType] show ?thesis
      by (simp add: getWhatsAppPayloadType_def table_eq)
  qed
qed

lemma payload_type_not_allowed:
  "mimeType \<notin> set allowed \<Longrightarrow> getWhatsAppPayloadType mimeType = ''document''"
  unfolding WHATSAPP_ALLOWED_TYPES_def getWhatsAppPayloadType_def allowed_def
  by simp

lemma payload_type_range:
  "getWhatsAppPayloadType mimeType \<in> {''image'', ''video'', ''audio'', ''document''}"
  unfolding WHATSAPP_ALLOWED_TYPES_def getWhatsAppPayloadType_def
  by simp

lemma upload_media_rejects:
  "type \<notin> set allowed \<Longrightarrow>
     snd (upload_media \<lparr>up_file = Some (type, buffer), up_name = name\<rparr> w) = w"
  by (simp add: upload_media_def split: option.splits)

lemma send_media_ok:
  assumes "upload_gives P w m i"
  shows "calls (snd (sendWhatsAppMessage P to text (Some m) w)) =
     calls w @ [UploadMedia (m_name m) (m_type m) (m_content m),
                SubmitMessage (MediaMessage to (getWhatsAppPayloadType (m_type m)) i (caption_of text))]"
  using assms
  by (auto simp: upload_gives_def sendWhatsAppMessage_def uploadMediaToWhatsApp_def post_message_def
      axios_post_def console_error_def split: http_response.splits option.splits)

text \<open>
  C8, as the code has it. \<open>getWhatsAppPayloadType\<close> never rejects: its result is always
  one of the four categories; a type of the allow-list gives the category whose list holds
  it; every other type gives \<open>document\<close>. A media row whose upload succeeds is submitted
  under that category with the caption \<^verbatim>\<open>text || ""\<close>, whatever its type. A type outside
  the allow-list is refused only by the upload handler, which then stores nothing.
\<close>

theorem payload_type_never_rejects:
  "getWhatsAppPayloadType mimeType \<in> {''image'', ''video'', ''audio'', ''document''}
   \<and> (\<forall>(type, list) \<in> set WHATSAPP_ALLOWED_TYPES.
        mimeType \<in> set list \<longrightarrow> getWhatsAppPayloadType mimeType = type)
   \<and> (mimeType \<notin> set allowed \<longrightarrow> getWhatsAppPayloadType mimeType = ''document'')
   \<and> (upload_gives P w m i \<longrightarrow>
        calls (snd (sendWhatsAppMessage P to text (Some m) w)) =
          calls w @ [UploadMedia (m_name m) (m_type m) (m_content m),
            SubmitMessage (MediaMessage to (getWhatsAppPayloadType (m_type m)) i (caption_of text))])
   \<and> (mimeType \<notin> set allowed \<longrightarrow>
        snd (upload_media \<lparr>up_file = Some (mimeType, buffer), up_name = name\<rparr> w) = w)"
  using payload_type_range [of mimeType] payload_type_in_table [of _ _ mimeType]
    payload_type_not_allowed [of mimeType] send_media_ok [of P w m i to "text"]
    upload_media_rejects [of mimeType buffer name w]
  by blast

theorem payload_type_never_rejects_witness:
  "(''image'', [''image/jpeg'', ''image/png'', ''image/webp'']) \<in> set WHATSAPP_ALLOWED_TYPES
   \<and> getWhatsAppPayloadType ''image/jpeg'' = ''image''
   \<and> upload_gives accepting empty_world (asset 5 ''image/jpeg'') ''media-77''
   \<and> calls (snd (sendWhatsAppMessage accepting ''+1555'' None (Some (asset 5 ''image/jpeg'')) empty_world)) =
       [UploadMedia ''file'' ''image/jpeg'' ''bytes'',
        SubmitMessage (MediaMessage ''+1555'' ''image'' ''media-77'' '''')]
   \<and> ''application/zip'' \<notin> set allowed
   \<and> getWhatsAppPayloadType ''application/zip'' = ''document''
   \<and> snd (upload_media \<lparr>up_file = Some (''application/zip'', ''bytes''), up_name = Some ''a''\<rparr> empty_world)
       = empty_world"
proof -
  have h1: "(''image'', [''image/jpeg'', ''image/png'', ''image/webp'']) \<in> set WHATSAPP_ALLOWED_TYPES"
    by (simp add: WHATSAPP_ALLOWED_TYPES_def)
  have h2: "''image/jpeg'' \<in> set [''image/jpeg'', ''image/png'', ''image/webp'']"
    by simp
  have h3: "upload_gives accepting empty_world (asset 5 ''image/jpeg'') ''media-77''"
    by (simp add: upload_gives_def asset_def)
  have h4: "''application/zip'' \<notin> set allowed"
    by (simp add: allowed_def WHATSAPP_ALLOWED_TYPES_def)
  have a: "getWhatsAppPayloadType ''image/jpeg'' = ''image''"
    using payload_type_never_rejects [of "''image/jpeg''"] h1 h2 by blast
  have b: "calls (snd (sendWhatsAppMessage accepting ''+1555'' None (Some (asset 5 ''image/jpeg'')) empty_world)) =
       calls empty_world @ [UploadMedia (m_name (asset 5 ''image/jpeg'')) (m_type (asset 5 ''image/jpeg''))
           (m_content (asset 5 ''image/jpeg'')),
        SubmitMessage (MediaMessage ''+1555'' (getWhatsAppPayloadType (m_type (asset 5 ''image/jpeg'')))
           ''media-77'' (caption_of None))]"
    using payload_type_never_rejects [of _ accepting empty_world "asset 5 ''image/jpeg''" "''media-77''"
        "''+1555''" None] h3 by blast
  have c: "getWhatsAppPayloadType ''application/zip'' = ''document''
     \<and> snd (upload_media \<lparr>up_file = Some (''application/zip'', ''bytes''), up_name = Some ''a''\<rparr> empty_world)
       = empty_world"
    using payload_type_never_rejects [of "''application/zip''" _ empty_world _ _ _ _ "''bytes''" "Some ''a''"] h4
    by blast
  from b a have b': "calls (snd (sendWhatsAppMessage accepting ''+1555'' None (Some (asset 5 ''image/jpeg'')) empty_world)) =
       [UploadMedia ''file'' ''image/jpeg'' ''bytes'',
        SubmitMessage (MediaMessage ''+1555'' ''image'' ''media-77'' '''')]"
    by (simp add: asset_def empty_world_def)
  show ?thesis using h1 a h3 b' h4 c by blast
qed

text \<open>
  C8, as stated, fails: for the type \<open>application/zip\<close>, which is in no list,
  \<open>getWhatsAppPayloadType\<close> answers \<open>document\<close> and the asset is uploaded and
  submitted to the provider.
\<close>

theorem unsupported_type_sent_as_document:
  "''application/zip'' \<notin> set allowed
   \<and> getWhatsAppPayloadType ''application/zip'' = ''document''
   \<and> sendWhatsAppMessage accepting ''+1555'' (Some ''hi'') (Some (asset 5 ''application/zip'')) empty_world
       = (Some ''wamid.123'',
          empty_world\<lparr>calls := [UploadMedia ''file'' ''application/zip'' ''bytes'',
             SubmitMessage (MediaMessage ''+1555'' ''document'' ''media-77'' ''hi'')]\<rparr>)"
  by (simp add: WHATSAPP_ALLOWED_TYPES_def getWhatsAppPayloadType_def allowed_def
      sendWhatsAppMessage_def uploadMediaToWhatsApp_def post_message_def axios_post_def
      asset_def empty_world_def)

subsection \<open>Receipts\<close>

text \<open>The handler on the body of one receipt: the row is found by comparing the receipt's id,
  read as an integer, with the local key \<open>sm_id\<close>.\<close>

lemma webhook_single_receipt:
  "webhook_post (receipt_body mid st) w =
     (200, case pg_id_param mid of
             Inl e \<Rightarrow> console_error ''Error processing webhook'' w
           | Inr None \<Rightarrow> w
           | Inr (Some k) \<Rightarrow> update_status (receipt_status st) k w)"
  by (simp add: webhook_post_def webhook_try_def receipt_body_def or_empty_def entry_round_def
      change_round_def status_round_def split: sum.splits option.splits)

lemma pg_int4_1: "pg_int4 ''1'' = Some 1"
  by (simp add: pg_int4_def trim_blanks_def is_blank_def unsigned_val_def digit_val_def in_int4_def)

lemma pg_int4_wamid: "pg_int4 ''wamid.123'' = None"
  by (simp add: pg_int4_def trim_blanks_def is_blank_def unsigned_val_def digit_val_def in_int4_def)

text \<open>
  C5, as the code has it. The handler has no guard on the current status: for a receipt
  on a row whose status is \<open>sent\<close>, a \<open>delivered\<close> or \<open>read\<close> receipt leaves the
  row as it is, whichever row the \<^verbatim>\<open>UPDATE\<close> reaches; a receipt with any other status
  (\<open>failed\<close>, and as well the provider's \<open>sent\<close>) puts \<open>failed\<close> in the place of
  \<open>sent\<close> when the \<^verbatim>\<open>UPDATE\<close> reaches the row; a row the \<^verbatim>\<open>UPDATE\<close> does not reach
  is left as it is.
\<close>

theorem receipt_on_sent_entry:
  assumes "i < length (messages w)" and "status (messages w ! i) = ''sent''"
  shows "(st = JStr ''delivered'' \<or> st = JStr ''read'' \<longrightarrow>
            messages (snd (webhook_post (receipt_body mid st) w)) ! i = messages w ! i)
       \<and> (st \<noteq> JStr ''delivered'' \<and> st \<noteq> JStr ''read'' \<and> receipt_reaches mid (messages w ! i) \<longrightarrow>
            messages (snd (webhook_post (receipt_body mid st) w)) ! i =
              (messages w ! i)\<lparr>status := ''failed''\<rparr>)
       \<and> (\<not> receipt_reaches mid (messages w ! i) \<longrightarrow>
            messages (snd (webhook_post (receipt_body mid st) w)) ! i = messages w ! i)"
  using assms
  by (auto simp: webhook_single_receipt receipt_reaches_def receipt_status_def
      messages_update_status console_error_def split: sum.splits option.splits)

theorem receipt_on_sent_entry_witness:
  "0 < length (messages sent_world) \<and> status (messages sent_world ! 0) = ''sent''
   \<and> messages (snd (webhook_post (receipt_body (JStr ''1'') (JStr ''delivered'')) sent_world)) ! 0
       = text_entry 1 0 ''sent''
   \<and> receipt_reaches (JStr ''1'') (messages sent_world ! 0)
   \<and> messages (snd (webhook_post (receipt_body (JStr ''1'') (JStr ''failed'')) sent_world)) ! 0
       = text_entry 1 0 ''failed''
   \<and> messages (snd (webhook_post (receipt_body (JStr ''1'') (JStr ''sent'')) sent_world)) ! 0
       = text_entry 1 0 ''failed''
   \<and> \<not> receipt_reaches (JStr ''wamid.123'') (messages sent_world ! 0)
   \<and> messages (snd (webhook_post (receipt_body (JStr ''wamid.123'') (JStr ''failed'')) sent_world)) ! 0
       = text_entry 1 0 ''sent''"
proof -
  have h1: "0 < length (messages sent_world)" by (simp add: sent_world_def empty_world_def)
  have h2: "status (messages sent_world ! 0) = ''sent''"
    by (simp add: sent_world_def empty_world_def text_entry_def)
  have h3: "receipt_reaches (JStr ''1'') (messages sent_world ! 0)"
    by (simp add: receipt_reaches_def pg_int4_1 sent_world_def empty_world_def text_entry_def)
  have h4: "\<not> receipt_reaches (JStr ''wamid.123'') (messages sent_world ! 0)"
    by (simp add: receipt_reaches_def pg_int4_wamid)
  have r: "messages sent_world ! 0 = text_entry 1 0 ''sent''"
    by (simp add: sent_world_def empty_world_def)
  from receipt_on_sent_entry [OF h1 h2, of "JStr ''delivered''" "JStr ''1''"]
  have a: "messages (snd (webhook_post (receipt_body (JStr ''1'') (JStr ''delivered'')) sent_world)) ! 0
       = text_entry 1 0 ''sent''"
    by (simp add: r)
  from receipt_on_sent_entry [OF h1 h2, of "JStr ''failed''" "JStr ''1''"] h3
  have b: "messages (snd (webhook_post (receipt_body (JStr ''1'') (JStr ''failed'')) sent_world)) ! 0
       = text_entry 1 0 ''failed''"
    by (simp add: r text_entry_def)
  from receipt_on_sent_entry [OF h1 h2, of "JStr ''sent''" "JStr ''1''"] h3
  have c: "messages (snd (webhook_post (receipt_body (JStr ''1'') (JStr ''sent'')) sent_world)) ! 0
       = text_entry 1 0 ''failed''"
    by (simp add: r text_entry_def)
  from receipt_on_sent_entry [OF h1 h2, of "JStr ''failed''" "JStr ''wamid.123''"] h4
  have d: "messages (snd (webhook_post (receipt_body (JStr ''wamid.123'') (JStr ''failed'')) sent_world)) ! 0
       = text_entry 1 0 ''sent''"
    by (simp add: r)
  from h1 h2 h3 h4 a b c d show ?thesis by simp
qed

text \<open>
  C5, as stated, fails: a \<open>failed\<close> receipt whose \<^verbatim>\<open>UPDATE\<close> reaches the row moves the
  row from \<open>sent\<close> to \<open>failed\<close>, and so does the provider's \<open>sent\<close> receipt.
\<close>

theorem failed_receipt_downgrades_sent:
  "map status (messages sent_world) = [''sent'']
   \<and> map status (messages (snd (webhook_post (receipt_body (JStr ''1'') (JStr ''failed'')) sent_world)))
       = [''failed'']
   \<and> map status (messages (snd (webhook_post (receipt_body (JStr ''1'') (JStr ''sent'')) sent_world)))
       = [''failed'']"
  by (simp add: webhook_single_receipt pg_int4_1 receipt_status_def update_status_def
      sent_world_def empty_world_def text_entry_def)

text \<open>
  C10. The webhook handler answers 200 for every body and every state of the tables. When
  the processing throws, the error goes to the console log and nowhere else: the reply is
  the bare status.
\<close>

theorem webhook_always_200:
  "fst (webhook_post body w) = 200
   \<and> console (snd (webhook_post body w)) =
       (case snd (webhook_try body w) of
          None \<Rightarrow> console (fst (webhook_try body w))
        | Some e \<Rightarrow> console (fst (webhook_try body w)) @ [ConsoleError ''Error processing webhook''])"
  by (simp add: webhook_post_def console_error_def split: prod.splits option.splits)

theorem webhook_always_200_witness:
  "snd (webhook_try (JObj [(''entry'', JArr [JNull])]) empty_world) = Some TypeError
   \<and> snd (webhook_try (receipt_body (JStr ''wamid.123'') (JStr ''read'')) sent_world) = Some DatabaseError
   \<and> fst (webhook_post (JObj [(''entry'', JArr [JNull])]) empty_world) = 200
   \<and> fst (webhook_post (receipt_body (JStr ''wamid.123'') (JStr ''read'')) sent_world) = 200"
  using webhook_always_200 [of "JObj [(''entry'', JArr [JNull])]" empty_world]
    webhook_always_200 [of "receipt_body (JStr ''wamid.123'') (JStr ''read'')" sent_world]
  by (simp add: webhook_try_def or_empty_def entry_round_def receipt_body_def change_round_def
      status_round_def pg_int4_wamid)

text \<open>
  C1 at a concrete table. Entry 1 is dispatched and the provider names the message
  \<open>wamid.123\<close>; the row keeps only its local id. A receipt naming \<open>1\<close>, an id the
  provider never gave to this entry, rewrites row 1. The receipt that does name
  \<open>wamid.123\<close> makes the \<^verbatim>\<open>UPDATE\<close> fail on the integer column and changes nothing.
\<close>

theorem receipt_matched_on_local_id:
  "processDueMessages accepting 0 (empty_world\<lparr>messages := [text_entry 1 0 ''pending'']\<rparr>)
     = sent_world\<lparr>calls := [SubmitMessage (TextMessage ''+1555'' (Some ''hi''))]\<rparr>
   \<and> accepting [] (SubmitMessage (TextMessage ''+1555'' (Some ''hi''))) = HttpOk (Some ''wamid.123'')
   \<and> webhook_post (receipt_body (JStr ''1'') (JStr ''failed'')) sent_world
     = (200, empty_world\<lparr>messages := [text_entry 1 0 ''failed'']\<rparr>)
   \<and> webhook_post (receipt_body (JStr ''wamid.123'') (JStr ''delivered'')) sent_world
     = (200, console_error ''Error processing webhook'' sent_world)"
  by (simp add: webhook_single_receipt pg_int4_1 pg_int4_wamid receipt_status_def update_status_def
      sent_world_def empty_world_def text_entry_def processDueMessages_def select_due_def
      process_msg_def load_media_row_def sendWhatsAppMessage_def post_message_def axios_post_def)

subsection \<open>Dispatch of one entry\<close>

lemma post_message_world:
  "snd (post_message P pl w) =
     (if submit_returns P w pl then w\<lparr>calls := calls w @ [SubmitMessage pl]\<rparr>
      else console_error ''Send WhatsApp message error'' (w\<lparr>calls := calls w @ [SubmitMessage pl]\<rparr>))"
  and post_message_result: "truthy (fst (post_message P pl w)) = submit_gives_id P w pl"
  by (auto simp: post_message_def axios_post_def submit_returns_def submit_gives_id_def
      split: http_response.splits)

lemma post_message_p0_world:
  "snd (post_message_p0 P pl w) =
     (if submit_returns P w pl then w\<lparr>calls := calls w @ [SubmitMessage pl]\<rparr>
      else console_error ''Message failed'' (w\<lparr>calls := calls w @ [SubmitMessage pl]\<rparr>))"
  and post_message_p0_result: "fst (post_message_p0 P pl w) = submit_returns P w pl"
  by (auto simp: post_message_p0_def axios_post_def submit_returns_def
      split: http_response.splits)

lemma messages_console_error [simp]: "messages (console_error s w) = messages w"
  and calls_console_error [simp]: "calls (console_error s w) = calls w"
  by (simp_all add: console_error_def)

lemma dangling_load: "dangling msg w \<Longrightarrow> load_media_row msg w = None"
  by (auto simp: dangling_def load_media_row_def split: option.splits)

lemma insert_message_foreign_key:
  "pg_int4 s = Some k \<Longrightarrow> select_media k w = None \<Longrightarrow>
     fst (insert_message phone txt (Some s) (Some ts) w) = Inl ''violates foreign key constraint''
     \<and> messages (snd (insert_message phone txt (Some s) (Some ts) w)) = messages w"
  by (simp add: insert_message_def)

text \<open>
  Neither dispatch routine checks that the media row was found. On a table in which an
  entry names a media id with no row (a table that the foreign key does not admit, see
  \<open>insert_message_foreign_key\<close>) the lookup gives \<^verbatim>\<open>undefined\<close>, the default
  parameter makes it \<^verbatim>\<open>null\<close>, and the text branch runs.
\<close>

lemma dispatch_without_asset_row:
  assumes "dangling msg w"
  shows "calls (process_msg P msg w) =
           calls w @ [SubmitMessage (TextMessage (phone_number msg) (message_text msg))]
       \<and> messages (process_msg P msg w) =
           map (\<lambda>r. if sm_id r = sm_id msg
                     then r\<lparr>status := if submit_gives_id P w (TextMessage (phone_number msg) (message_text msg))
                                        then ''sent'' else ''failed''\<rparr>
                     else r) (messages w)
       \<and> calls (sendAndMark P msg w) =
           calls w @ [SubmitMessage (TextMessage (phone_number msg) (message_text msg))]
       \<and> messages (sendAndMark P msg w) =
           map (\<lambda>r. if sm_id r = sm_id msg
                     then r\<lparr>status := if submit_returns P w (TextMessage (phone_number msg) (message_text msg))
                                        then ''sent'' else ''failed''\<rparr>
                     else r) (messages w)"
proof -
  let ?pl = "TextMessage (phone_number msg) (message_text msg)"
  have l: "load_media_row msg w = None" using assms by (rule dangling_load)
  have a: "process_msg P msg w =
      update_status (if submit_gives_id P w ?pl then ''sent'' else ''failed'') (sm_id msg)
        (snd (post_message P ?pl w))"
    by (simp add: process_msg_def l sendWhatsAppMessage_def post_message_result case_prod_beta)
  have b: "sendAndMark P msg w =
      update_status (if submit_returns P w ?pl then ''sent'' else ''failed'') (sm_id msg)
        (snd (post_message_p0 P ?pl w))"
    by (simp add: sendAndMark_def l sendWhatsAppMessage_p0_def post_message_p0_result case_prod_beta)
  show ?thesis
    unfolding a b
    by (simp add: messages_update_status post_message_world post_message_p0_world)
qed

lemma send_frame:
  "messages (snd (sendWhatsAppMessage P to txt mr w)) = messages w"
  "media_library (snd (sendWhatsAppMessage P to txt mr w)) = media_library w"
  "timers (snd (sendWhatsAppMessage P to txt mr w)) = timers w"
  "next_message_id (snd (sendWhatsAppMessage P to txt mr w)) = next_message_id w"
  "next_media_id (snd (sendWhatsAppMessage P to txt mr w)) = next_media_id w"
  by (simp_all add: sendWhatsAppMessage_def uploadMediaToWhatsApp_def post_message_def
      axios_post_def console_error_def split: option.splits http_response.splits)

lemma send_p0_frame:
  "messages (snd (sendWhatsAppMessage_p0 P to txt mr w)) = messages w"
  "media_library (snd (sendWhatsAppMessage_p0 P to txt mr w)) = media_library w"
  "timers (snd (sendWhatsAppMessage_p0 P to txt mr w)) = timers w"
  "next_message_id (snd (sendWhatsAppMessage_p0 P to txt mr w)) = next_message_id w"
  "next_media_id (snd (sendWhatsAppMessage_p0 P to txt mr w)) = next_media_id w"
  by (simp_all add: sendWhatsAppMessage_p0_def uploadMediaToWhatsApp_def post_message_p0_def
      axios_post_def console_error_def split: option.splits http_response.splits)

lemma send_calls_grow:
  "length (calls w) < length (calls (snd (sendWhatsAppMessage P to txt mr w)))"
  "length (calls w) < length (calls (snd (sendWhatsAppMessage_p0 P to txt mr w)))"
  by (simp_all add: sendWhatsAppMessage_def sendWhatsAppMessage_p0_def uploadMediaToWhatsApp_def
      post_message_def post_message_p0_def axios_post_def console_error_def
      split: option.splits http_response.splits)

lemma send_result_nonempty:
  "fst (sendWhatsAppMessage P to txt mr w) = Some pmid \<Longrightarrow> pmid \<noteq> []"
  by (auto simp: sendWhatsAppMessage_def uploadMediaToWhatsApp_def post_message_def
      axios_post_def console_error_def split: option.splits http_response.splits if_splits)

lemma process_msg_messages:
  "messages (process_msg P msg w) =
     map (\<lambda>r. if sm_id r = sm_id msg
               then r\<lparr>status := if truthy (fst (sendWhatsAppMessage P (phone_number msg) (message_text msg)
                                                   (load_media_row msg w) w))
                                  then ''sent'' else ''failed''\<rparr>
               else r) (messages w)"
  by (simp add: process_msg_def case_prod_beta messages_update_status send_frame)

lemma sendAndMark_messages:
  "messages (sendAndMark P msg w) =
     map (\<lambda>r. if sm_id r = sm_id msg
               then r\<lparr>status := if fst (sendWhatsAppMessage_p0 P (phone_number msg) (message_text msg)
                                           (load_media_row msg w) w)
                                  then ''sent'' else ''failed''\<rparr>
               else r) (messages w)"
  by (simp add: sendAndMark_def case_prod_beta messages_update_status send_p0_frame)

lemma update_status_frame:
  "media_library (update_status s k w) = media_library w"
  "timers (update_status s k w) = timers w"
  "next_message_id (update_status s k w) = next_message_id w"
  "next_media_id (update_status s k w) = next_media_id w"
  "console (update_status s k w) = console w"
  by (simp_all add: update_status_def)

text \<open>
  C6, as the code has it. After a successful submission (server.js: the provider returned
  the non-empty message id \<open>pmid\<close>; part\_000: the request did not throw) every row with
  the entry's id has status \<open>sent\<close>, and that is the whole change to the tables: no
  other column and no other row changes. The provider's id is not written anywhere; the
  table has no column for it.
\<close>

theorem successful_submission_sets_status_only:
  "(fst (sendWhatsAppMessage P (phone_number msg) (message_text msg) (load_media_row msg w) w) = Some pmid
      \<longrightarrow> pmid \<noteq> []
        \<and> messages (process_msg P msg w) =
            map (\<lambda>r. if sm_id r = sm_id msg then r\<lparr>status := ''sent''\<rparr> else r) (messages w)
        \<and> media_library (process_msg P msg w) = media_library w
        \<and> timers (process_msg P msg w) = timers w)
   \<and> (fst (sendWhatsAppMessage_p0 P (phone_number msg) (message_text msg) (load_media_row msg w) w)
      \<longrightarrow> messages (sendAndMark P msg w) =
            map (\<lambda>r. if sm_id r = sm_id msg then r\<lparr>status := ''sent''\<rparr> else r) (messages w)
        \<and> media_library (sendAndMark P msg w) = media_library w
        \<and> timers (sendAndMark P msg w) = timers w)"
proof (intro conjI impI)
  assume a: "fst (sendWhatsAppMessage P (phone_number msg) (message_text msg) (load_media_row msg w) w) = Some pmid"
  then show ne: "pmid \<noteq> []" by (rule send_result_nonempty)
  with a show "messages (process_msg P msg w) =
            map (\<lambda>r. if sm_id r = sm_id msg then r\<lparr>status := ''sent''\<rparr> else r) (messages w)"
    by (simp add: process_msg_messages)
next
  assume "fst (sendWhatsAppMessage_p0 P (phone_number msg) (message_text msg) (load_media_row msg w) w)"
  then show "messages (sendAndMark P msg w) =
            map (\<lambda>r. if sm_id r = sm_id msg then r\<lparr>status := ''sent''\<rparr> else r) (messages w)"
    by (simp add: sendAndMark_messages)
qed (simp_all add: process_msg_def sendAndMark_def case_prod_beta update_status_frame send_frame send_p0_frame)

theorem successful_submission_sets_status_only_witness:
  "fst (sendWhatsAppMessage accepting ''+1555'' (Some ''hi'') None pending_world) = Some ''wamid.123''
   \<and> messages (process_msg accepting (text_entry 1 0 ''pending'') pending_world) = [text_entry 1 0 ''sent'']
   \<and> fst (sendWhatsAppMessage_p0 accepting ''+1555'' (Some ''hi'') None pending_world)
   \<and> messages (sendAndMark accepting (text_entry 1 0 ''pending'') pending_world) = [text_entry 1 0 ''sent'']"
proof -
  have l: "load_media_row (text_entry 1 0 ''pending'') pending_world = None"
    by (simp add: load_media_row_def text_entry_def)
  have f: "phone_number (text_entry 1 0 ''pending'') = ''+1555''"
    "message_text (text_entry 1 0 ''pending'') = Some ''hi''"
    by (simp_all add: text_entry_def)
  have h1: "fst (sendWhatsAppMessage accepting ''+1555'' (Some ''hi'') None pending_world) = Some ''wamid.123''"
    by (simp add: sendWhatsAppMessage_def post_message_def axios_post_def)
  have h2: "fst (sendWhatsAppMessage_p0 accepting ''+1555'' (Some ''hi'') None pending_world)"
    by (simp add: sendWhatsAppMessage_p0_def post_message_p0_def axios_post_def)
  from successful_submission_sets_status_only
    [of accepting "text_entry 1 0 ''pending''" pending_world "''wamid.123''"] h1 h2
  show ?thesis
    unfolding l f by (simp add: pending_world_def empty_world_def text_entry_def)
qed

text \<open>
  C6, as stated, fails: the entry of scenario A is sent and the provider names it
  \<open>wamid.123\<close>, but the row afterwards is the old row with status \<open>sent\<close>; none of
  its text columns holds the provider's id.
\<close>

theorem provider_id_not_stored:
  "fst (sendWhatsAppMessage accepting ''+1555'' (Some ''hi'') None pending_world) = Some ''wamid.123''
   \<and> messages (processDueMessages accepting 1000 pending_world) =
       [\<lparr>sm_id = 1, phone_number = ''+1555'', message_text = Some ''hi'', media_id = None,
         scheduled_time = 0, status = ''sent''\<rparr>]
   \<and> ''wamid.123'' \<notin> set (concat (map row_texts (messages (processDueMessages accepting 1000 pending_world))))"
  by (simp add: processDueMessages_def select_due_def process_msg_def load_media_row_def
      sendWhatsAppMessage_def post_message_def axios_post_def update_status_def row_texts_def
      pending_world_def empty_world_def text_entry_def)

subsection \<open>Repeated dispatch and repeated sweeps\<close>

lemma settled_or_same_refl: "settled_or_same r r"
  by (simp add: settled_or_same_def)

lemma settled_or_same_trans:
  "settled_or_same r r' \<Longrightarrow> settled_or_same r' r'' \<Longrightarrow> settled_or_same r r''"
  by (auto simp: settled_or_same_def)

lemma settled_or_same_pending:
  "settled_or_same r r' \<Longrightarrow> status r' = ''pending'' \<Longrightarrow> r' = r"
  by (auto simp: settled_or_same_def)

lemma settled_or_same_id: "settled_or_same r r' \<Longrightarrow> sm_id r' = sm_id r"
  by (auto simp: settled_or_same_def)

lemma list_all2_map_same: "(\<And>x. x \<in> set xs \<Longrightarrow> R x (f x)) \<Longrightarrow> list_all2 R xs (map f xs)"
  by (simp add: list_all2_map2 list.rel_refl_strong)

lemma process_msg_settles: "list_all2 settled_or_same (messages w) (messages (process_msg P msg w))"
  unfolding process_msg_messages
  by (rule list_all2_map_same) (simp add: settled_or_same_def)

lemma sendAndMark_settles: "list_all2 settled_or_same (messages w) (messages (sendAndMark P msg w))"
  unfolding sendAndMark_messages
  by (rule list_all2_map_same) (simp add: settled_or_same_def)

lemma process_msg_own_rows:
  "r \<in> set (messages (process_msg P msg w)) \<Longrightarrow> sm_id r = sm_id msg \<Longrightarrow>
     status r = ''sent'' \<or> status r = ''failed''"
  unfolding process_msg_messages by (auto split: if_splits)

lemma sendAndMark_own_rows:
  "r \<in> set (messages (sendAndMark P msg w)) \<Longrightarrow> sm_id r = sm_id msg \<Longrightarrow>
     status r = ''sent'' \<or> status r = ''failed''"
  unfolding sendAndMark_messages by (auto split: if_splits)

lemma process_msg_keeps_terminal:
  assumes "\<forall>r \<in> set (messages w). sm_id r \<in> S \<longrightarrow> status r = ''sent'' \<or> status r = ''failed''"
    and "r \<in> set (messages (process_msg P msg w))" and "sm_id r \<in> insert (sm_id msg) S"
  shows "status r = ''sent'' \<or> status r = ''failed''"
  using assms unfolding process_msg_messages by (auto split: if_splits)

lemma sweep_settles:
  "list_all2 settled_or_same (messages w) (messages (fold (process_msg P) ms w))"
proof (induction ms arbitrary: w)
  case Nil
  show ?case by (simp add: list.rel_refl settled_or_same_refl)
next
  case (Cons m ms)
  have "list_all2 settled_or_same (messages w) (messages (process_msg P m w))"
    by (rule process_msg_settles)
  moreover have "list_all2 settled_or_same (messages (process_msg P m w))
      (messages (fold (process_msg P) ms (process_msg P m w)))"
    by (rule Cons.IH)
  ultimately show ?case
    by (simp add: list_all2_trans [where ?P1.0 = settled_or_same and ?P2.0 = settled_or_same, OF settled_or_same_trans])
qed

lemma sweep_terminal:
  assumes "\<forall>r \<in> set (messages w). sm_id r \<in> S \<longrightarrow> status r = ''sent'' \<or> status r = ''failed''"
  shows "\<forall>r \<in> set (messages (fold (process_msg P) ms w)).
           sm_id r \<in> S \<union> sm_id ` set ms \<longrightarrow> status r = ''sent'' \<or> status r = ''failed''"
  using assms
proof (induction ms arbitrary: w S)
  case Nil
  then show ?case by simp
next
  case (Cons m ms)
  have "\<forall>r \<in> set (messages (process_msg P m w)).
          sm_id r \<in> insert (sm_id m) S \<longrightarrow> status r = ''sent'' \<or> status r = ''failed''"
    using process_msg_keeps_terminal [OF Cons.prems] by blast
  from Cons.IH [OF this] show ?case by simp
qed

lemma nothing_due_after_sweep:
  assumes "now' \<le> now"
  shows "select_due now' (processDueMessages P now w) = []"
proof -
  let ?w' = "processDueMessages P now w"
  have "\<not> (status r' = ''pending'' \<and> scheduled_time r' \<le> now')" if r': "r' \<in> set (messages ?w')" for r'
  proof
    assume p: "status r' = ''pending'' \<and> scheduled_time r' \<le> now'"
    from r' obtain i where i: "i < length (messages ?w')" "messages ?w' ! i = r'"
      by (auto simp: in_set_conv_nth)
    have rel: "list_all2 settled_or_same (messages w) (messages ?w')"
      unfolding processDueMessages_def by (rule sweep_settles)
    then have len: "length (messages w) = length (messages ?w')"
      by (rule list_all2_lengthD)
    from rel i len have "settled_or_same (messages w ! i) r'"
      by (auto dest: list_all2_nthD2)
    with p have eq: "r' = messages w ! i" by (simp add: settled_or_same_pending)
    with i len have "r' \<in> set (messages w)" by (metis nth_mem)
    with p assms have "r' \<in> set (select_due now w)" by (simp add: select_due_def)
    then have "sm_id r' \<in> {} \<union> sm_id ` set (select_due now w)" by simp
    with sweep_terminal [of w "{}" P "select_due now w"] r'
    have "status r' = ''sent'' \<or> status r' = ''failed''"
      unfolding processDueMessages_def by blast
    with p show False by simp
  qed
  then show ?thesis by (simp add: select_due_def filter_empty_conv)
qed

lemma process_msg_calls_grow: "length (calls w) < length (calls (process_msg P msg w))"
  by (simp add: process_msg_def case_prod_beta send_calls_grow)

lemma sendAndMark_calls_grow: "length (calls w) < length (calls (sendAndMark P msg w))"
  by (simp add: sendAndMark_def case_prod_beta send_calls_grow)

lemma update_status_overwrite:
  "update_status s' k (update_status s k w) = update_status s' k w"
  by (auto simp: update_status_def)

lemma load_media_row_update_status [simp]:
  "load_media_row m (update_status s k w) = load_media_row m w"
  by (simp add: load_media_row_def select_media_def update_status_def split: option.splits)

lemma send_update_status:
  "sendWhatsAppMessage P to txt mr (update_status s k w) =
     (fst (sendWhatsAppMessage P to txt mr w), update_status s k (snd (sendWhatsAppMessage P to txt mr w)))"
  by (simp add: sendWhatsAppMessage_def uploadMediaToWhatsApp_def post_message_def
      axios_post_def console_error_def update_status_def split: option.splits http_response.splits)

lemma send_p0_update_status:
  "sendWhatsAppMessage_p0 P to txt mr (update_status s k w) =
     (fst (sendWhatsAppMessage_p0 P to txt mr w),
      update_status s k (snd (sendWhatsAppMessage_p0 P to txt mr w)))"
  by (simp add: sendWhatsAppMessage_p0_def uploadMediaToWhatsApp_def post_message_p0_def
      axios_post_def console_error_def update_status_def split: option.splits http_response.splits)

lemma process_msg_ignores_status:
  "process_msg P msg (update_status s (sm_id msg) w) = process_msg P msg w"
  by (simp add: process_msg_def send_update_status update_status_overwrite case_prod_beta)

lemma sendAndMark_ignores_status:
  "sendAndMark P msg (update_status s (sm_id msg) w) = sendAndMark P msg w"
  by (simp add: sendAndMark_def send_p0_update_status update_status_overwrite case_prod_beta)

lemma later_sweep_selects_others:
  assumes "r \<in> set (select_due now' (processDueMessages P now w))"
  shows "sm_id r \<notin> sm_id ` set (select_due now w)"
proof
  assume "sm_id r \<in> sm_id ` set (select_due now w)"
  then have "sm_id r \<in> {} \<union> sm_id ` set (select_due now w)" by simp
  moreover from assms have "r \<in> set (messages (fold (process_msg P) (select_due now w) w))"
    and p: "status r = ''pending''"
    by (simp_all add: select_due_def processDueMessages_def)
  ultimately have "status r = ''sent'' \<or> status r = ''failed''"
    using sweep_terminal [of w "{}" P "select_due now w"] by blast
  with p show False by simp
qed

text \<open>
  C4, as the code has it. Neither dispatch routine looks at the current status of the
  entry's row: whatever status the row holds when a dispatch starts, the dispatch does the
  same, makes at least one provider call, and writes the outcome over the status of every
  row with the entry's id. What keeps an entry from being sent twice is the selection
  alone: once a dispatch of an entry has finished, no row with its id is \<open>pending\<close>, so
  neither selection query returns it; a sweep that runs after an earlier sweep has
  finished, at any clock reading, selects no entry that the earlier sweep selected; and at
  a clock reading not beyond the earlier one it selects nothing and calls the provider no
  more.
\<close>

theorem completed_dispatch_not_selected_again:
  "process_msg P msg (update_status s (sm_id msg) w) = process_msg P msg w
   \<and> sendAndMark P msg (update_status s (sm_id msg) w) = sendAndMark P msg w
   \<and> length (calls w) < length (calls (process_msg P msg w))
   \<and> length (calls w) < length (calls (sendAndMark P msg w))
   \<and> messages (process_msg P msg w) =
       map (\<lambda>r. if sm_id r = sm_id msg
                 then r\<lparr>status := if truthy (fst (sendWhatsAppMessage P (phone_number msg)
                                      (message_text msg) (load_media_row msg w) w))
                                    then ''sent'' else ''failed''\<rparr>
                 else r) (messages w)
   \<and> messages (sendAndMark P msg w) =
       map (\<lambda>r. if sm_id r = sm_id msg
                 then r\<lparr>status := if fst (sendWhatsAppMessage_p0 P (phone_number msg)
                                      (message_text msg) (load_media_row msg w) w)
                                    then ''sent'' else ''failed''\<rparr>
                 else r) (messages w)
   \<and> (\<forall>r \<in> set (select_due now (process_msg P msg w)). sm_id r \<noteq> sm_id msg)
   \<and> (\<forall>r \<in> set (select_pending_from now (sendAndMark P msg w)). sm_id r \<noteq> sm_id msg)
   \<and> (\<forall>r \<in> set (select_due now' (processDueMessages P now w)).
        sm_id r \<notin> sm_id ` set (select_due now w))
   \<and> (now' \<le> now \<longrightarrow>
        processDueMessages P now' (processDueMessages P now w) = processDueMessages P now w)"
proof (intro conjI ballI impI)
  show "process_msg P msg (update_status s (sm_id msg) w) = process_msg P msg w"
    by (rule process_msg_ignores_status)
  show "sendAndMark P msg (update_status s (sm_id msg) w) = sendAndMark P msg w"
    by (rule sendAndMark_ignores_status)
  show "length (calls w) < length (calls (process_msg P msg w))" by (rule process_msg_calls_grow)
  show "length (calls w) < length (calls (sendAndMark P msg w))" by (rule sendAndMark_calls_grow)
  show "messages (process_msg P msg w) =
       map (\<lambda>r. if sm_id r = sm_id msg
                 then r\<lparr>status := if truthy (fst (sendWhatsAppMessage P (phone_number msg)
                                      (message_text msg) (load_media_row msg w) w))
                                    then ''sent'' else ''failed''\<rparr>
                 else r) (messages w)"
    by (rule process_msg_messages)
  show "messages (sendAndMark P msg w) =
       map (\<lambda>r. if sm_id r = sm_id msg
                 then r\<lparr>status := if fst (sendWhatsAppMessage_p0 P (phone_number msg)
                                      (message_text msg) (load_media_row msg w) w)
                                    then ''sent'' else ''failed''\<rparr>
                 else r) (messages w)"
    by (rule sendAndMark_messages)
next
  fix r assume "r \<in> set (select_due now (process_msg P msg w))"
  then have "r \<in> set (messages (process_msg P msg w))" "status r = ''pending''"
    by (simp_all add: select_due_def)
  with process_msg_own_rows [of r P msg w] show "sm_id r \<noteq> sm_id msg" by auto
next
  fix r assume "r \<in> set (select_pending_from now (sendAndMark P msg w))"
  then have "r \<in> set (messages (sendAndMark P msg w))" "status r = ''pending''"
    by (simp_all add: select_pending_from_def)
  with sendAndMark_own_rows [of r P msg w] show "sm_id r \<noteq> sm_id msg" by auto
next
  fix r assume "r \<in> set (select_due now' (processDueMessages P now w))"
  then show "sm_id r \<notin> sm_id ` set (select_due now w)" by (rule later_sweep_selects_others)
next
  assume "now' \<le> now"
  then have "select_due now' (processDueMessages P now w) = []" by (rule nothing_due_after_sweep)
  then show "processDueMessages P now' (processDueMessages P now w) = processDueMessages P now w"
    by (simp add: processDueMessages_def)
qed

theorem completed_dispatch_not_selected_again_witness:
  "select_due 0 (process_msg accepting (text_entry 1 0 ''pending'') two_world) = [text_entry 2 0 ''pending'']
   \<and> select_pending_from 0 (sendAndMark accepting (text_entry 1 0 ''pending'') two_world) =
       [text_entry 2 0 ''pending'']
   \<and> sm_id (text_entry 2 0 ''pending'') \<noteq> sm_id (text_entry 1 0 ''pending'')
   \<and> select_due 10 overdue_world = [text_entry 1 5 ''pending'']
   \<and> select_due 40 (processDueMessages accepting 10 overdue_world) = [text_entry 2 30 ''pending'']
   \<and> sm_id (text_entry 2 30 ''pending'') \<notin> sm_id ` set (select_due 10 overdue_world)
   \<and> (0::int) \<le> 0
   \<and> processDueMessages accepting 0 (processDueMessages accepting 0 two_world) =
       processDueMessages accepting 0 two_world
   \<and> length (calls (processDueMessages accepting 0 two_world)) = 2
   \<and> process_msg accepting (text_entry 1 0 ''pending'') (update_status ''sent'' 1 two_world) =
       process_msg accepting (text_entry 1 0 ''pending'') two_world"
proof -
  note thm1 = completed_dispatch_not_selected_again
    [of accepting "text_entry 1 0 ''pending''" "''sent''" two_world 0 0]
  note thm2 = completed_dispatch_not_selected_again
    [of accepting "text_entry 1 0 ''pending''" "''sent''" overdue_world 10 40]
  have s1: "select_due 0 (process_msg accepting (text_entry 1 0 ''pending'') two_world) =
      [text_entry 2 0 ''pending'']"
    by (simp add: select_due_def process_msg_def load_media_row_def sendWhatsAppMessage_def
        post_message_def axios_post_def update_status_def two_world_def empty_world_def text_entry_def)
  have s2: "select_pending_from 0 (sendAndMark accepting (text_entry 1 0 ''pending'') two_world) =
      [text_entry 2 0 ''pending'']"
    by (simp add: select_pending_from_def sendAndMark_def load_media_row_def sendWhatsAppMessage_p0_def
        post_message_p0_def axios_post_def update_status_def two_world_def empty_world_def text_entry_def)
  have s3: "select_due 10 overdue_world = [text_entry 1 5 ''pending'']"
    by (simp add: select_due_def overdue_world_def empty_world_def text_entry_def)
  have s4: "select_due 40 (processDueMessages accepting 10 overdue_world) = [text_entry 2 30 ''pending'']"
    by (simp add: processDueMessages_def select_due_def process_msg_def load_media_row_def
        sendWhatsAppMessage_def post_message_def axios_post_def update_status_def overdue_world_def
        empty_world_def text_entry_def)
  have c: "length (calls (processDueMessages accepting 0 two_world)) = 2"
    by (simp add: processDueMessages_def select_due_def process_msg_def load_media_row_def
        sendWhatsAppMessage_def post_message_def axios_post_def update_status_def two_world_def
        empty_world_def text_entry_def)
  have i: "sm_id (text_entry 1 0 ''pending'') = 1" by (simp add: text_entry_def)
  from thm1
  have a: "processDueMessages accepting 0 (processDueMessages accepting 0 two_world) =
          processDueMessages accepting 0 two_world"
    by simp
  from thm1 have b: "process_msg accepting (text_entry 1 0 ''pending'')
        (update_status ''sent'' (sm_id (text_entry 1 0 ''pending'')) two_world) =
       process_msg accepting (text_entry 1 0 ''pending'') two_world"
    by (rule conjunct1)
  from thm2 have "\<forall>r \<in> set (select_due 40 (processDueMessages accepting 10 overdue_world)).
        sm_id r \<notin> sm_id ` set (select_due 10 overdue_world)"
    by blast
  with s4 have d: "sm_id (text_entry 2 30 ''pending'') \<notin> sm_id ` set (select_due 10 overdue_world)"
    by simp
  from s1 s2 s3 s4 c a b d show ?thesis unfolding i by (simp add: text_entry_def)
qed

text \<open>
  C4, as stated, fails. Two triggers that hold the same selected row each call the
  provider: a second \<open>sendAndMark\<close> of entry 1 runs although the row is already
  \<open>sent\<close>, and two sweeps that both selected entry 1 before either wrote its status
  submit it twice.
\<close>

theorem duplicate_dispatch_calls_provider_twice:
  "sendAndMark accepting (text_entry 1 0 ''pending'') pending_world =
     empty_world\<lparr>messages := [text_entry 1 0 ''sent''],
       calls := [SubmitMessage (TextMessage ''+1555'' (Some ''hi''))]\<rparr>
   \<and> sendAndMark accepting (text_entry 1 0 ''pending'')
       (sendAndMark accepting (text_entry 1 0 ''pending'') pending_world) =
     empty_world\<lparr>messages := [text_entry 1 0 ''sent''],
       calls := [SubmitMessage (TextMessage ''+1555'' (Some ''hi'')),
                 SubmitMessage (TextMessage ''+1555'' (Some ''hi''))]\<rparr>
   \<and> select_due 0 pending_world = [text_entry 1 0 ''pending'']
   \<and> calls (fold (process_msg accepting) (select_due 0 pending_world)
        (fold (process_msg accepting) (select_due 0 pending_world) pending_world)) =
       [SubmitMessage (TextMessage ''+1555'' (Some ''hi'')),
        SubmitMessage (TextMessage ''+1555'' (Some ''hi''))]"
  by (simp add: sendAndMark_def load_media_row_def sendWhatsAppMessage_p0_def post_message_p0_def
      select_due_def process_msg_def sendWhatsAppMessage_def post_message_def
      axios_post_def update_status_def pending_world_def empty_world_def text_entry_def)

subsection \<open>The startup sweep (part\_000)\<close>

lemma sendAndMark_timers: "timers (sendAndMark P msg w) = timers w"
  by (simp add: sendAndMark_def case_prod_beta update_status_frame send_p0_frame)

lemma scheduleMessage_cases:
  "scheduleMessage P now' m w =
     (if scheduled_time m \<le> now' then sendAndMark P m w
      else w\<lparr>timers := timers w @ [(m, setTimeout_delay (scheduled_time m - now'))]\<rparr>)"
  by (simp add: scheduleMessage_def Let_def)

lemma setTimeout_delay_small: "0 < d \<Longrightarrow> d \<le> 2147483647 \<Longrightarrow> setTimeout_delay d = d"
  by (simp add: setTimeout_delay_def)

lemma load_media_row_timers [simp]: "load_media_row m (w\<lparr>timers := t\<rparr>) = load_media_row m w"
  by (simp add: load_media_row_def select_media_def split: option.splits)

lemma send_p0_timers_update:
  "sendWhatsAppMessage_p0 P to txt mr (w\<lparr>timers := t\<rparr>) =
     (fst (sendWhatsAppMessage_p0 P to txt mr w), (snd (sendWhatsAppMessage_p0 P to txt mr w))\<lparr>timers := t\<rparr>)"
  by (simp add: sendWhatsAppMessage_p0_def uploadMediaToWhatsApp_def post_message_p0_def
      axios_post_def console_error_def split: option.splits http_response.splits)

lemma update_status_timers_update:
  "update_status s k (w\<lparr>timers := t\<rparr>) = (update_status s k w)\<lparr>timers := t\<rparr>"
  by (simp add: update_status_def)

lemma sendAndMark_timers_update:
  "sendAndMark P m (w\<lparr>timers := t\<rparr>) = (sendAndMark P m w)\<lparr>timers := t\<rparr>"
  by (simp add: sendAndMark_def send_p0_timers_update update_status_timers_update case_prod_beta)

lemma fold_sendAndMark_timers_update:
  "fold (sendAndMark P) ms (w\<lparr>timers := t\<rparr>) = (fold (sendAndMark P) ms w)\<lparr>timers := t\<rparr>"
  by (induction ms arbitrary: w) (simp_all add: sendAndMark_timers_update)

lemma fold_sendAndMark_timers: "timers (fold (sendAndMark P) ms w) = timers w"
  by (induction ms arbitrary: w) (simp_all add: sendAndMark_timers)

lemma timers_self_update: "timers w = t \<Longrightarrow> w\<lparr>timers := t\<rparr> = w"
  by simp

lemma fold_scheduleMessage_split:
  "fold (scheduleMessage P now') ms w =
     (fold (sendAndMark P) (filter (\<lambda>m. scheduled_time m \<le> now') ms) w)
       \<lparr>timers := timers w @ map (\<lambda>m. (m, setTimeout_delay (scheduled_time m - now')))
                              (filter (\<lambda>m. now' < scheduled_time m) ms)\<rparr>"
proof (induction ms arbitrary: w)
  case Nil
  show ?case by simp
next
  case (Cons m ms)
  have step: "fold (scheduleMessage P now') (m # ms) w =
      fold (scheduleMessage P now') ms (scheduleMessage P now' m w)"
    by simp
  show ?case
  proof (cases "scheduled_time m \<le> now'")
    case True
    then have eq: "scheduleMessage P now' m w = sendAndMark P m w"
      by (simp add: scheduleMessage_cases)
    show ?thesis
      unfolding step eq Cons.IH using True by (simp add: sendAndMark_timers)
  next
    case False
    then have eq: "scheduleMessage P now' m w =
        w\<lparr>timers := timers w @ [(m, setTimeout_delay (scheduled_time m - now'))]\<rparr>"
      by (simp add: scheduleMessage_cases)
    show ?thesis
      unfolding step eq Cons.IH using False by (simp add: fold_sendAndMark_timers_update)
  qed
qed

lemma sendAndMark_outside:
  "list_all2 (\<lambda>r r'. sm_id r' = sm_id r \<and> (sm_id r \<noteq> sm_id msg \<longrightarrow> r' = r))
     (messages w) (messages (sendAndMark P msg w))"
  unfolding sendAndMark_messages by (rule list_all2_map_same) simp

lemma scheduleMessage_outside:
  "list_all2 (\<lambda>r r'. sm_id r' = sm_id r \<and> (sm_id r \<noteq> sm_id msg \<longrightarrow> r' = r))
     (messages w) (messages (scheduleMessage P now' msg w))"
  using sendAndMark_outside [of msg w P]
  by (simp add: scheduleMessage_def Let_def list.rel_refl)

lemma fold_scheduleMessage_outside:
  "list_all2 (\<lambda>r r'. sm_id r' = sm_id r \<and> (sm_id r \<notin> sm_id ` set ms \<longrightarrow> r' = r))
     (messages w) (messages (fold (scheduleMessage P now') ms w))"
proof (induction ms arbitrary: w)
  case Nil
  show ?case by (simp add: list.rel_refl)
next
  case (Cons m ms)
  have A: "list_all2 (\<lambda>r r'. sm_id r' = sm_id r \<and> (sm_id r \<noteq> sm_id m \<longrightarrow> r' = r))
     (messages w) (messages (scheduleMessage P now' m w))"
    by (rule scheduleMessage_outside)
  have B: "list_all2 (\<lambda>r r'. sm_id r' = sm_id r \<and> (sm_id r \<notin> sm_id ` set ms \<longrightarrow> r' = r))
     (messages (scheduleMessage P now' m w))
     (messages (fold (scheduleMessage P now') ms (scheduleMessage P now' m w)))"
    by (rule Cons.IH)
  have "list_all2 (\<lambda>r r'. sm_id r' = sm_id r \<and> (sm_id r \<notin> sm_id ` set (m # ms) \<longrightarrow> r' = r))
     (messages w) (messages (fold (scheduleMessage P now') ms (scheduleMessage P now' m w)))"
    by (rule list_all2_trans [OF _ A B]) auto
  then show ?case by simp
qed

lemma overdue_row_untouched:
  assumes d: "distinct (map sm_id (messages w))"
    and r: "r \<in> set (messages w)" and p: "status r = ''pending''" and t: "scheduled_time r < now"
  shows "r \<in> set (messages (initPendingMessages P now now' w))"
proof -
  let ?sel = "select_pending_from now w"
  let ?w' = "initPendingMessages P now now' w"
  have notsel: "sm_id r \<notin> sm_id ` set ?sel"
  proof
    assume "sm_id r \<in> sm_id ` set ?sel"
    then obtain m where m: "m \<in> set ?sel" "sm_id m = sm_id r" by auto
    then have mw: "m \<in> set (messages w)" and mt: "now \<le> scheduled_time m"
      by (simp_all add: select_pending_from_def)
    from d have "inj_on sm_id (set (messages w))" by (simp add: distinct_map)
    with mw r m(2) have "m = r" by (auto dest: inj_onD)
    with mt t show False by simp
  qed
  from r obtain i where i: "i < length (messages w)" "messages w ! i = r"
    by (auto simp: in_set_conv_nth)
  have rel: "list_all2 (\<lambda>r r'. sm_id r' = sm_id r \<and> (sm_id r \<notin> sm_id ` set ?sel \<longrightarrow> r' = r))
     (messages w) (messages ?w')"
    unfolding initPendingMessages_def by (rule fold_scheduleMessage_outside)
  then have len: "length (messages w) = length (messages ?w')" by (rule list_all2_lengthD)
  from rel i have "messages ?w' ! i = r" using notsel by (auto dest: list_all2_nthD)
  with i len show ?thesis by (metis nth_mem)
qed

lemma create_hands_to_scheduleMessage:
  assumes "phone \<noteq> []"
    and "insert_message phone txt (if truthy mid then mid else None) (Some ts) w = (Inr newMsg, w1)"
  shows "schedule_message_p0 P now'
           \<lparr>req_phone_number = Some phone, req_message_text = txt, req_media_id = mid,
            req_scheduled_time = Some (IsoTime ts off)\<rparr> w =
         (ReplyOk, scheduleMessage P now' newMsg w1)"
  using assms by (cases "truthy mid") (simp_all add: schedule_message_p0_def)

text \<open>
  C3, as the code has it. The startup sweep selects the pending entries whose scheduled
  time is at or after the clock reading \<open>now\<close>, with no horizon, and passes each to
  \<open>scheduleMessage\<close>, the routine the create handler calls on a new row. Of the selected
  entries, those whose time is not after the loop's clock reading \<open>now'\<close> are
  dispatched at once by \<open>sendAndMark\<close>, in table order, and each of the others gets a
  timer for the remaining delay (the delay itself when it is at most 2147483647 ms).
  Entries whose time has passed are not selected: with unique ids their rows stay as they
  are, still \<open>pending\<close>, and when every pending entry is overdue the sweep does nothing
  at all.
\<close>

theorem startup_sweep_selects_from_now_on:
  "initPendingMessages P now now' w =
     (fold (sendAndMark P)
        (filter (\<lambda>r. status r = ''pending'' \<and> now \<le> scheduled_time r \<and> scheduled_time r \<le> now')
           (messages w)) w)
     \<lparr>timers := timers w @ map (\<lambda>m. (m, setTimeout_delay (scheduled_time m - now')))
         (filter (\<lambda>r. status r = ''pending'' \<and> now \<le> scheduled_time r \<and> now' < scheduled_time r)
            (messages w))\<rparr>
   \<and> scheduleMessage P now' m w =
       (if scheduled_time m \<le> now' then sendAndMark P m w
        else w\<lparr>timers := timers w @ [(m, setTimeout_delay (scheduled_time m - now'))]\<rparr>)
   \<and> (0 < d \<and> d \<le> 2147483647 \<longrightarrow> setTimeout_delay d = d)
   \<and> ((\<forall>r \<in> set (messages w). status r = ''pending'' \<longrightarrow> scheduled_time r < now) \<longrightarrow>
        initPendingMessages P now now' w = w)
   \<and> (distinct (map sm_id (messages w)) \<longrightarrow>
        (\<forall>r \<in> set (messages w). status r = ''pending'' \<and> scheduled_time r < now \<longrightarrow>
           r \<in> set (messages (initPendingMessages P now now' w))))
   \<and> (phone \<noteq> [] \<and>
        insert_message phone txt (if truthy mid then mid else None) (Some ts) w = (Inr newMsg, w1) \<longrightarrow>
        schedule_message_p0 P now'
          \<lparr>req_phone_number = Some phone, req_message_text = txt, req_media_id = mid,
           req_scheduled_time = Some (IsoTime ts off)\<rparr> w =
        (ReplyOk, scheduleMessage P now' newMsg w1))"
proof (intro conjI impI ballI)
  show "initPendingMessages P now now' w =
     (fold (sendAndMark P)
        (filter (\<lambda>r. status r = ''pending'' \<and> now \<le> scheduled_time r \<and> scheduled_time r \<le> now')
           (messages w)) w)
     \<lparr>timers := timers w @ map (\<lambda>m. (m, setTimeout_delay (scheduled_time m - now')))
         (filter (\<lambda>r. status r = ''pending'' \<and> now \<le> scheduled_time r \<and> now' < scheduled_time r)
            (messages w))\<rparr>"
    by (simp add: initPendingMessages_def select_pending_from_def fold_scheduleMessage_split
        conj_commute conj_left_commute cong: conj_cong)
  show "scheduleMessage P now' m w =
       (if scheduled_time m \<le> now' then sendAndMark P m w
        else w\<lparr>timers := timers w @ [(m, setTimeout_delay (scheduled_time m - now'))]\<rparr>)"
    by (rule scheduleMessage_cases)
next
  assume "0 < d \<and> d \<le> 2147483647"
  then show "setTimeout_delay d = d" by (simp add: setTimeout_delay_small)
next
  assume "\<forall>r \<in> set (messages w). status r = ''pending'' \<longrightarrow> scheduled_time r < now"
  then have "select_pending_from now w = []"
    by (auto simp: select_pending_from_def filter_empty_conv)
  then show "initPendingMessages P now now' w = w" by (simp add: initPendingMessages_def)
next
  fix r
  assume "distinct (map sm_id (messages w))" "r \<in> set (messages w)"
    "status r = ''pending'' \<and> scheduled_time r < now"
  then show "r \<in> set (messages (initPendingMessages P now now' w))"
    by (simp add: overdue_row_untouched)
next
  assume "phone \<noteq> [] \<and>
    insert_message phone txt (if truthy mid then mid else None) (Some ts) w = (Inr newMsg, w1)"
  then show "schedule_message_p0 P now'
          \<lparr>req_phone_number = Some phone, req_message_text = txt, req_media_id = mid,
           req_scheduled_time = Some (IsoTime ts off)\<rparr> w =
        (ReplyOk, scheduleMessage P now' newMsg w1)"
    by (simp add: create_hands_to_scheduleMessage)
qed

theorem startup_sweep_selects_from_now_on_witness:
  "distinct (map sm_id (messages overdue_world))
   \<and> text_entry 1 5 ''pending'' \<in> set (messages overdue_world)
   \<and> scheduled_time (text_entry 1 5 ''pending'') < 10
   \<and> text_entry 1 5 ''pending'' \<in> set (messages (initPendingMessages accepting 10 11 overdue_world))
   \<and> initPendingMessages accepting 10 11 overdue_world =
       overdue_world\<lparr>timers := [(text_entry 2 30 ''pending'', 19)]\<rparr>
   \<and> initPendingMessages accepting 10 30 overdue_world =
       overdue_world\<lparr>messages := [text_entry 1 5 ''pending'', text_entry 2 30 ''sent''],
         calls := [SubmitMessage (TextMessage ''+1555'' (Some ''hi''))]\<rparr>
   \<and> scheduleMessage accepting 30 (text_entry 2 30 ''pending'') overdue_world =
       sendAndMark accepting (text_entry 2 30 ''pending'') overdue_world
   \<and> (0::int) < 19 \<and> (19::int) \<le> 2147483647 \<and> setTimeout_delay 19 = 19
   \<and> initPendingMessages accepting 40 41 overdue_world = overdue_world
   \<and> insert_message ''+1555'' (Some ''hi'') None (Some 30) empty_world =
       (Inr (text_entry 1 30 ''pending''),
        empty_world\<lparr>messages := [text_entry 1 30 ''pending''], next_message_id := 2\<rparr>)
   \<and> schedule_message_p0 accepting 11
         \<lparr>req_phone_number = Some ''+1555'', req_message_text = Some ''hi'', req_media_id = None,
          req_scheduled_time = Some (IsoTime 30 None)\<rparr> empty_world =
       (ReplyOk, empty_world\<lparr>messages := [text_entry 1 30 ''pending''], next_message_id := 2,
          timers := [(text_entry 1 30 ''pending'', 19)]\<rparr>)"
proof -
  note thm1 = startup_sweep_selects_from_now_on
    [of accepting 10 11 overdue_world "text_entry 2 30 ''pending''" 19]
  note thm2 = startup_sweep_selects_from_now_on
    [of accepting 10 30 overdue_world "text_entry 2 30 ''pending''" 19]
  note thm3 = startup_sweep_selects_from_now_on [of accepting 40 41 overdue_world]
  have h1: "distinct (map sm_id (messages overdue_world))"
    by (simp add: overdue_world_def empty_world_def text_entry_def)
  have h2: "text_entry 1 5 ''pending'' \<in> set (messages overdue_world)"
    by (simp add: overdue_world_def empty_world_def)
  have h3: "status (text_entry 1 5 ''pending'') = ''pending'' \<and> scheduled_time (text_entry 1 5 ''pending'') < 10"
    by (simp add: text_entry_def)
  have h4: "\<forall>r \<in> set (messages overdue_world). status r = ''pending'' \<longrightarrow> scheduled_time r < 40"
    by (simp add: overdue_world_def empty_world_def text_entry_def)
  have h7: "(0::int) < 19 \<and> (19::int) \<le> 2147483647" by simp
  from thm1 h1 h2 h3
  have a: "text_entry 1 5 ''pending'' \<in> set (messages (initPendingMessages accepting 10 11 overdue_world))"
    by blast
  from thm1 have "initPendingMessages accepting 10 11 overdue_world =
     (fold (sendAndMark accepting)
        (filter (\<lambda>r. status r = ''pending'' \<and> 10 \<le> scheduled_time r \<and> scheduled_time r \<le> 11)
           (messages overdue_world)) overdue_world)
     \<lparr>timers := timers overdue_world @ map (\<lambda>m. (m, setTimeout_delay (scheduled_time m - 11)))
         (filter (\<lambda>r. status r = ''pending'' \<and> 10 \<le> scheduled_time r \<and> 11 < scheduled_time r)
            (messages overdue_world))\<rparr>"
    by blast
  then have b: "initPendingMessages accepting 10 11 overdue_world =
       overdue_world\<lparr>timers := [(text_entry 2 30 ''pending'', 19)]\<rparr>"
    by (simp add: overdue_world_def empty_world_def text_entry_def setTimeout_delay_def)
  from thm2 have "initPendingMessages accepting 10 30 overdue_world =
     (fold (sendAndMark accepting)
        (filter (\<lambda>r. status r = ''pending'' \<and> 10 \<le> scheduled_time r \<and> scheduled_time r \<le> 30)
           (messages overdue_world)) overdue_world)
     \<lparr>timers := timers overdue_world @ map (\<lambda>m. (m, setTimeout_delay (scheduled_time m - 30)))
         (filter (\<lambda>r. status r = ''pending'' \<and> 10 \<le> scheduled_time r \<and> 30 < scheduled_time r)
            (messages overdue_world))\<rparr>"
    by blast
  then have b2: "initPendingMessages accepting 10 30 overdue_world =
       overdue_world\<lparr>messages := [text_entry 1 5 ''pending'', text_entry 2 30 ''sent''],
         calls := [SubmitMessage (TextMessage ''+1555'' (Some ''hi''))]\<rparr>"
    by (simp add: sendAndMark_def load_media_row_def sendWhatsAppMessage_p0_def post_message_p0_def
        axios_post_def update_status_def overdue_world_def empty_world_def text_entry_def)
  from thm2 have "scheduleMessage accepting 30 (text_entry 2 30 ''pending'') overdue_world =
       (if scheduled_time (text_entry 2 30 ''pending'') \<le> 30
        then sendAndMark accepting (text_entry 2 30 ''pending'') overdue_world
        else overdue_world\<lparr>timers := timers overdue_world @
          [(text_entry 2 30 ''pending'', setTimeout_delay (scheduled_time (text_entry 2 30 ''pending'') - 30))]\<rparr>)"
    by blast
  then have b3: "scheduleMessage accepting 30 (text_entry 2 30 ''pending'') overdue_world =
       sendAndMark accepting (text_entry 2 30 ''pending'') overdue_world"
    by (simp add: text_entry_def)
  from thm1 h7 have b4: "setTimeout_delay 19 = 19" by blast
  from thm3 h4
  have c: "initPendingMessages accepting 40 41 overdue_world = overdue_world"
    by blast
  have h5: "insert_message ''+1555'' (Some ''hi'') (if truthy None then None else None) (Some 30) empty_world =
       (Inr (text_entry 1 30 ''pending''),
        empty_world\<lparr>messages := [text_entry 1 30 ''pending''], next_message_id := 2\<rparr>)"
    by (simp add: insert_message_def Let_def empty_world_def text_entry_def)
  have h6: "''+1555'' \<noteq> []" by simp
  from startup_sweep_selects_from_now_on [of accepting _ 11 empty_world _ _ "''+1555''" "Some ''hi''"
      None 30 "text_entry 1 30 ''pending''"
      "empty_world\<lparr>messages := [text_entry 1 30 ''pending''], next_message_id := 2\<rparr>" None]
    h5 h6
  have "schedule_message_p0 accepting 11
         \<lparr>req_phone_number = Some ''+1555'', req_message_text = Some ''hi'', req_media_id = None,
          req_scheduled_time = Some (IsoTime 30 None)\<rparr> empty_world =
     (ReplyOk, scheduleMessage accepting 11 (text_entry 1 30 ''pending'')
        (empty_world\<lparr>messages := [text_entry 1 30 ''pending''], next_message_id := 2\<rparr>))"
    by blast
  then have e: "schedule_message_p0 accepting 11
         \<lparr>req_phone_number = Some ''+1555'', req_message_text = Some ''hi'', req_media_id = None,
          req_scheduled_time = Some (IsoTime 30 None)\<rparr> empty_world =
       (ReplyOk, empty_world\<lparr>messages := [text_entry 1 30 ''pending''], next_message_id := 2,
          timers := [(text_entry 1 30 ''pending'', 19)]\<rparr>)"
    by (simp add: scheduleMessage_def setTimeout_delay_def empty_world_def text_entry_def)
  from h1 h2 h3 a b b2 b3 b4 c h5 e show ?thesis by simp
qed

text \<open>
  C3, as stated, fails: at clock reading 10 the entry due at 5 is in the specification's
  selection (for the horizon 0, and so for every larger one) but not in the code's; the
  sweep arms the entry due at 30 and leaves the overdue one untouched.
\<close>

theorem overdue_entry_not_recovered:
  "spec_recovery_selection 10 0 overdue_world = [text_entry 1 5 ''pending'']
   \<and> select_pending_from 10 overdue_world = [text_entry 2 30 ''pending'']
   \<and> initPendingMessages accepting 10 10 overdue_world =
       overdue_world\<lparr>timers := [(text_entry 2 30 ''pending'', 20)]\<rparr>"
  by (simp add: spec_recovery_selection_def select_pending_from_def initPendingMessages_def
      scheduleMessage_def setTimeout_delay_def overdue_world_def empty_world_def text_entry_def)

subsection \<open>The scheduled time\<close>

lemma for_of_times:
  assumes "\<And>x s. map scheduled_time (messages (fst (body x s))) = map scheduled_time (messages s)"
  shows "map scheduled_time (messages (fst (for_of body xs w))) = map scheduled_time (messages w)"
proof (induction xs arbitrary: w)
  case Nil
  show ?case by simp
next
  case (Cons x xs)
  show ?case
  proof (cases "body x w")
    case (Pair w' e)
    with assms [of x w] have step: "map scheduled_time (messages w') = map scheduled_time (messages w)"
      by simp
    with Pair Cons.IH [of w'] show ?thesis by (cases e) simp_all
  qed
qed

lemma update_status_times:
  "map scheduled_time (messages (update_status s k w)) = map scheduled_time (messages w)"
  by (simp add: messages_update_status o_def if_distrib cong: if_cong)

lemma status_round_times:
  "map scheduled_time (messages (fst (status_round st w))) = map scheduled_time (messages w)"
  by (simp add: status_round_def update_status_times split: sum.splits option.splits)

lemma change_round_times:
  "map scheduled_time (messages (fst (change_round c w))) = map scheduled_time (messages w)"
  by (simp add: change_round_def for_of_times status_round_times split: sum.splits)

lemma entry_round_times:
  "map scheduled_time (messages (fst (entry_round e w))) = map scheduled_time (messages w)"
  by (simp add: entry_round_def for_of_times change_round_times split: sum.splits)

lemma webhook_try_times:
  "map scheduled_time (messages (fst (webhook_try body w))) = map scheduled_time (messages w)"
  by (simp add: webhook_try_def for_of_times entry_round_times split: sum.splits)

lemma webhook_post_times:
  "map scheduled_time (messages (snd (webhook_post body w))) = map scheduled_time (messages w)"
proof (cases "webhook_try body w")
  case (Pair w' e)
  with webhook_try_times [of body w] show ?thesis
    by (cases e) (simp_all add: webhook_post_def)
qed

lemma process_msg_times:
  "map scheduled_time (messages (process_msg P msg w)) = map scheduled_time (messages w)"
  by (simp add: process_msg_messages o_def if_distrib cong: if_cong)

lemma sweep_times:
  "map scheduled_time (messages (fold (process_msg P) ms w)) = map scheduled_time (messages w)"
  by (induction ms arbitrary: w) (simp_all add: process_msg_times)

lemma scheduleMessage_times:
  "map scheduled_time (messages (scheduleMessage P now m w)) = map scheduled_time (messages w)"
  by (simp add: scheduleMessage_def Let_def sendAndMark_messages o_def if_distrib cong: if_cong)

lemma insert_message_row:
  assumes "insert_message phone txt mp tp w = (Inr row, w')"
  shows "tp = Some (scheduled_time row) \<and> messages w' = messages w @ [row]"
  using assms
  by (auto simp: insert_message_def Let_def split: option.splits if_splits)

lemma schedule_message_row:
  assumes "schedule_message req w = (ReplyRow row, w')"
    and "req_scheduled_time req = Some t"
  shows "fromISO_toUTC t = Some (scheduled_time row) \<and> messages w' = messages w @ [row]"
  using assms
  by (auto simp: schedule_message_def split: option.splits if_splits prod.splits sum.splits
      dest: insert_message_row)

lemma schedule_message_p0_row:
  assumes "schedule_message_p0 P now req w = (ReplyOk, w')"
    and "req_scheduled_time req = Some (IsoTime t off)"
  shows "map scheduled_time (messages w') = map scheduled_time (messages w) @ [t]"
  using assms
  by (auto simp: schedule_message_p0_def scheduleMessage_times
      split: option.splits if_splits prod.splits sum.splits dest!: insert_message_row)

text \<open>
  C9, as the code has it. The create handler of server.js stores the UTC instant of the
  request's time: the time fields less the text's own offset, or less the offset of
  Asia/Kolkata when the text has none; two texts that name the same instant in different
  zones are stored alike. After that nothing rewrites a stored time (neither the sweep nor
  the webhook), and the sweep compares it with the current UTC time as it is. The create
  handler of part\_000 does not convert: it stores the time fields of the request as they
  came.
\<close>

theorem scheduled_time_converted_once:
  "(schedule_message req w = (ReplyRow row, w') \<and> req_scheduled_time req = Some (IsoTime t off) \<longrightarrow>
      scheduled_time row = t - (case off of None \<Rightarrow> kolkata_offset | Some z \<Rightarrow> z) * 60000
      \<and> messages w' = messages w @ [row])
   \<and> fromISO_toUTC (IsoTime (u + z * 60000) (Some z)) = Some u
   \<and> map scheduled_time (messages (processDueMessages P now w)) = map scheduled_time (messages w)
   \<and> map scheduled_time (messages (snd (webhook_post body w))) = map scheduled_time (messages w)
   \<and> select_due now w =
       filter (\<lambda>r. status r = ''pending'' \<and> scheduled_time r \<le> now) (messages w)
   \<and> (schedule_message_p0 P now req w = (ReplyOk, w'') \<and>
      req_scheduled_time req = Some (IsoTime t off) \<longrightarrow>
      map scheduled_time (messages w'') = map scheduled_time (messages w) @ [t])"
proof (intro conjI impI)
  assume a: "schedule_message req w = (ReplyRow row, w') \<and> req_scheduled_time req = Some (IsoTime t off)"
  then have "fromISO_toUTC (IsoTime t off) = Some (scheduled_time row) \<and> messages w' = messages w @ [row]"
    using schedule_message_row [of req w row w' "IsoTime t off"] by blast
  then show "scheduled_time row = t - (case off of None \<Rightarrow> kolkata_offset | Some z \<Rightarrow> z) * 60000"
    and "messages w' = messages w @ [row]"
    by (cases off; simp)+
next
  show "fromISO_toUTC (IsoTime (u + z * 60000) (Some z)) = Some u" by simp
  show "map scheduled_time (messages (processDueMessages P now w)) = map scheduled_time (messages w)"
    by (simp add: processDueMessages_def sweep_times)
  show "map scheduled_time (messages (snd (webhook_post body w))) = map scheduled_time (messages w)"
    by (rule webhook_post_times)
  show "select_due now w =
       filter (\<lambda>r. status r = ''pending'' \<and> scheduled_time r \<le> now) (messages w)"
    by (simp add: select_due_def)
next
  assume "schedule_message_p0 P now req w = (ReplyOk, w'') \<and>
      req_scheduled_time req = Some (IsoTime t off)"
  then show "map scheduled_time (messages w'') = map scheduled_time (messages w) @ [t]"
    using schedule_message_p0_row [of P now req w w'' t off] by blast
qed

lemma zoned_server_js:
  "schedule_message zoned_request empty_world =
     (ReplyRow (text_entry 1 16200000 ''pending''),
      empty_world\<lparr>messages := [text_entry 1 16200000 ''pending''], next_message_id := 2\<rparr>)"
  by (simp add: schedule_message_def insert_message_def Let_def zoned_request_def empty_world_def
      text_entry_def)

lemma zoned_p0:
  "schedule_message_p0 accepting 0 zoned_request empty_world =
     (ReplyOk,
      empty_world\<lparr>messages := [text_entry 1 36000000 ''pending''], next_message_id := 2,
        timers := [(text_entry 1 36000000 ''pending'', 36000000)]\<rparr>)"
  by (simp add: schedule_message_p0_def insert_message_def Let_def scheduleMessage_def
      setTimeout_delay_def zoned_request_def empty_world_def text_entry_def)

theorem scheduled_time_converted_once_witness:
  "schedule_message zoned_request empty_world =
     (ReplyRow (text_entry 1 16200000 ''pending''),
      empty_world\<lparr>messages := [text_entry 1 16200000 ''pending''], next_message_id := 2\<rparr>)
   \<and> req_scheduled_time zoned_request = Some (IsoTime 36000000 (Some 330))
   \<and> scheduled_time (text_entry 1 16200000 ''pending'') = 36000000 - 330 * 60000
   \<and> schedule_message_p0 accepting 0 zoned_request empty_world =
     (ReplyOk,
      empty_world\<lparr>messages := [text_entry 1 36000000 ''pending''], next_message_id := 2,
        timers := [(text_entry 1 36000000 ''pending'', 36000000)]\<rparr>)
   \<and> map scheduled_time (messages (empty_world\<lparr>messages := [text_entry 1 36000000 ''pending''],
        next_message_id := 2, timers := [(text_entry 1 36000000 ''pending'', 36000000)]\<rparr>)) = [36000000]"
proof -
  have r: "req_scheduled_time zoned_request = Some (IsoTime 36000000 (Some 330))"
    by (simp add: zoned_request_def)
  from scheduled_time_converted_once [of zoned_request empty_world "text_entry 1 16200000 ''pending''"
      "empty_world\<lparr>messages := [text_entry 1 16200000 ''pending''], next_message_id := 2\<rparr>"
      36000000 "Some 330" _ _ accepting 0 _
      "empty_world\<lparr>messages := [text_entry 1 36000000 ''pending''], next_message_id := 2,
        timers := [(text_entry 1 36000000 ''pending'', 36000000)]\<rparr>"]
    zoned_server_js zoned_p0 r
  have "scheduled_time (text_entry 1 16200000 ''pending'') = 36000000 - (case Some 330 of None \<Rightarrow> kolkata_offset | Some z \<Rightarrow> z) * 60000
     \<and> map scheduled_time (messages (empty_world\<lparr>messages := [text_entry 1 36000000 ''pending''],
        next_message_id := 2, timers := [(text_entry 1 36000000 ''pending'', 36000000)]\<rparr>)) =
        map scheduled_time (messages empty_world) @ [36000000]"
    by blast
  with zoned_server_js zoned_p0 r show ?thesis by (simp add: empty_world_def)
qed

text \<open>
  C9, as stated, fails for the create handler of part\_000: for the request of 10:00+05:30
  it stores 10:00, where the UTC instant, which server.js stores, is 04:30.
\<close>

theorem timer_server_stores_time_unconverted:
  "fromISO_toUTC (IsoTime 36000000 (Some 330)) = Some 16200000
   \<and> map scheduled_time (messages (snd (schedule_message zoned_request empty_world))) = [16200000]
   \<and> map scheduled_time (messages (snd (schedule_message_p0 accepting 0 zoned_request empty_world))) =
       [36000000]"
  by (simp add: zoned_server_js zoned_p0 text_entry_def)

subsection \<open>Media references\<close>






































end
